theory Spec2Isabelle
  imports Main "HOL-Library.Word" "HOL-Library.Sublist"
begin

unbundle bit_operations_syntax

section \<open>Go values shared by the packages\<close>

text \<open>
  A Go \<^verbatim>\<open>string\<close> is a sequence of bytes; it is modelled as a \<^typ>\<open>string\<close>, whose
  characters are bytes, so \<^term>\<open>length s\<close> is Go's \<^verbatim>\<open>len(s)\<close>.

  A Go \<^verbatim>\<open>error\<close> is a value of the datatype below; the \<^verbatim>\<open>nil\<close> error is \<^term>\<open>None\<close> of
  \<^typ>\<open>'a option\<close>. Errors that come from outside the repository (the operating system,
  \<^verbatim>\<open>encoding/json\<close>, the Kubernetes API) carry their message and the class that
  \<^verbatim>\<open>errors.Is(err, os.ErrNotExist)\<close>, \<^verbatim>\<open>errors.IsNotFound\<close> and \<^verbatim>\<open>errors.IsConflict\<close>
  test for.
\<close>

datatype error_kind = NotExist | NotFound | Conflict | OtherKind

datatype error =
    ErrorString string
  | WrapError string error
  | ResultError string string
  | External error_kind string

text \<open>
  \<^term>\<open>ErrorString m\<close> is \<^verbatim>\<open>errors.New(m)\<close> or a \<^verbatim>\<open>fmt.Errorf\<close> without \<^verbatim>\<open>%w\<close>;
  \<^term>\<open>WrapError p e\<close> is \<^verbatim>\<open>fmt.Errorf(p + "%w", e)\<close> (every \<^verbatim>\<open>%w\<close> of the repository is
  the last verb of its format); \<^term>\<open>ResultError f m\<close> is \<^verbatim>\<open>&ResultError{Field: f, Message: m}\<close>.
\<close>

fun Error :: "error \<Rightarrow> string" where
  "Error (ErrorString m) = m"
| "Error (WrapError p e) = p @ Error e"
| "Error (ResultError f m) = f @ '': '' @ m"
| "Error (External k m) = m"

text \<open>
  \<^verbatim>\<open>errors.Is\<close> and the predicates of \<^verbatim>\<open>k8s.io/apimachinery/pkg/api/errors\<close> look through
  the chain of wrapped errors.
\<close>

fun kind_of :: "error \<Rightarrow> error_kind" where
  "kind_of (External k m) = k"
| "kind_of (WrapError p e) = kind_of e"
| "kind_of (ErrorString m) = OtherKind"
| "kind_of (ResultError f m) = OtherKind"

definition errors_Is_ErrNotExist :: "error \<Rightarrow> bool" where
  "errors_Is_ErrNotExist err = (kind_of err = NotExist)"

definition errors_IsNotFound :: "error \<Rightarrow> bool" where
  "errors_IsNotFound err = (kind_of err = NotFound)"

definition errors_IsConflict :: "error \<Rightarrow> bool" where
  "errors_IsConflict err = (kind_of err = Conflict)"

text \<open>The verb \<^verbatim>\<open>%d\<close> of \<^verbatim>\<open>fmt\<close>: a decimal numeral, with a minus sign when negative.\<close>

fun digits :: "nat \<Rightarrow> string" where
  "digits n = (if n < 10 then [char_of (48 + n)] else digits (n div 10) @ [char_of (48 + n mod 10)])"

declare digits.simps [simp del]

definition Itoa :: "int \<Rightarrow> string" where
  "Itoa i = (if i < 0 then CHR ''-'' # digits (nat (- i)) else digits (nat i))"

text \<open>
  \<^verbatim>\<open>time.Duration\<close> is a count of nanoseconds, and the verb \<^verbatim>\<open>%s\<close> prints it with its
  \<^verbatim>\<open>String\<close> method: hours, minutes and seconds with the fraction of a second stripped of
  trailing zeros (\<^verbatim>\<open>5m0s\<close>, \<^verbatim>\<open>1.5s\<close>), or a smaller unit below one second (\<^verbatim>\<open>50ms\<close>).
  \<^term>\<open>fmtFrac v prec\<close> prints the \<^term>\<open>prec\<close> lowest decimal digits of \<^term>\<open>v\<close> as a
  fraction and returns the remaining digits of \<^term>\<open>v\<close>.
\<close>

type_synonym Duration = int

fun fmtFracLoop :: "nat \<Rightarrow> nat \<Rightarrow> bool \<Rightarrow> string \<Rightarrow> string \<times> nat \<times> bool" where
  "fmtFracLoop 0 v print buf = (buf, v, print)"
| "fmtFracLoop (Suc k) v print buf =
     (let digit = v mod 10;
          print = (print \<or> digit \<noteq> 0);
          buf = (if print then char_of (48 + digit) # buf else buf)
      in fmtFracLoop k (v div 10) print buf)"

definition fmtFrac :: "nat \<Rightarrow> nat \<Rightarrow> string \<times> nat" where
  "fmtFrac v prec =
     (case fmtFracLoop prec v False [] of
        (buf, v', print) \<Rightarrow> (if print then CHR ''.'' # buf else buf, v'))"

definition Duration_String :: "Duration \<Rightarrow> string" where
  "Duration_String d =
     (let u = nat \<bar>d\<bar>;
          neg = (d < 0);
          body =
            (if u < 1000000000 then
               (if u = 0 then ''0s''
                else if u < 1000 then digits u @ ''ns''
                else if u < 1000000 then
                  (case fmtFrac u 3 of (frac, w) \<Rightarrow> digits w @ frac @ [CHR 0xC2, CHR 0xB5] @ ''s'')
                else
                  (case fmtFrac u 6 of (frac, w) \<Rightarrow> digits w @ frac @ ''ms''))
             else
               (case fmtFrac u 9 of (frac, secs) \<Rightarrow>
                  let s = digits (secs mod 60) @ frac @ ''s'';
                      mins = secs div 60
                  in if mins > 0 then
                       (let m = digits (mins mod 60) @ ''m'';
                            hours = mins div 60
                        in (if hours > 0 then digits hours @ ''h'' else []) @ m @ s)
                     else s))
      in if neg then CHR ''-'' # body else body)"

section \<open>Package result: the adapter result and its validation\<close>

definition StatusSuccess :: string where "StatusSuccess = ''success''"
definition StatusFailure :: string where "StatusFailure = ''failure''"
definition DefaultReason :: string where "DefaultReason = ''NoReasonProvided''"
definition DefaultMessage :: string where "DefaultMessage = ''No message provided''"
definition maxReasonLength :: int where "maxReasonLength = 128"
definition maxMessageLength :: int where "maxMessageLength = 1024"

record AdapterResult =
  Status :: string
  Reason :: string
  Message :: string
  Details :: string

definition IsSuccess :: "AdapterResult \<Rightarrow> bool" where
  "IsSuccess r = (Status r = StatusSuccess)"

subsection \<open>UTF-8\<close>

text \<open>\<^verbatim>\<open>utf8.RuneStart(b)\<close> is \<^verbatim>\<open>b&0xC0 != 0x80\<close>: the byte is not a continuation byte.\<close>

definition RuneStart :: "char \<Rightarrow> bool" where
  "RuneStart b = ((of_char b :: 8 word) AND 0xC0 \<noteq> 0x80)"

text \<open>
  The loop \<^verbatim>\<open>for i := maxBytes; i > 0; i-- { if utf8.RuneStart(s[i]) { return s[:i] } }\<close>
  followed by \<^verbatim>\<open>return ""\<close>. It is entered only when \<^verbatim>\<open>len(s) > maxBytes\<close>, so every
  \<^verbatim>\<open>s[i]\<close> it reads is in range.
\<close>

fun truncateLoop :: "string \<Rightarrow> nat \<Rightarrow> string" where
  "truncateLoop s 0 = []"
| "truncateLoop s (Suc i) = (if RuneStart (s ! Suc i) then take (Suc i) s else truncateLoop s i)"

definition truncateUTF8 :: "string \<Rightarrow> int \<Rightarrow> string" where
  "truncateUTF8 s maxBytes =
     (if int (length s) \<le> maxBytes then s else truncateLoop s (nat maxBytes))"

text \<open>
  Well-formed UTF-8, as \<^verbatim>\<open>utf8.ValidString\<close> decides it (the Unicode standard's table of
  well-formed byte sequences): \<^term>\<open>rune_size s\<close> is the number of bytes of the encoded
  character at the front of \<^term>\<open>s\<close>, and 0 when no well-formed sequence starts there.
\<close>

definition in_range :: "char \<Rightarrow> nat \<Rightarrow> nat \<Rightarrow> bool" where
  "in_range b lo hi = (lo \<le> of_char b \<and> of_char b \<le> hi)"

definition lead_byte :: "nat \<Rightarrow> (nat \<times> nat \<times> nat) option" where
  "lead_byte x =
     (if 0xC2 \<le> x \<and> x \<le> 0xDF then Some (2, 0x80, 0xBF)
      else if x = 0xE0 then Some (3, 0xA0, 0xBF)
      else if 0xE1 \<le> x \<and> x \<le> 0xEC then Some (3, 0x80, 0xBF)
      else if x = 0xED then Some (3, 0x80, 0x9F)
      else if 0xEE \<le> x \<and> x \<le> 0xEF then Some (3, 0x80, 0xBF)
      else if x = 0xF0 then Some (4, 0x90, 0xBF)
      else if 0xF1 \<le> x \<and> x \<le> 0xF3 then Some (4, 0x80, 0xBF)
      else if x = 0xF4 then Some (4, 0x80, 0x8F)
      else None)"

fun rune_size :: "string \<Rightarrow> nat" where
  "rune_size [] = 0"
| "rune_size (b # bs) =
     (if (of_char b :: nat) < 0x80 then 1
      else case lead_byte (of_char b) of
        None \<Rightarrow> 0
      | Some (n, lo, hi) \<Rightarrow>
          if length bs < n - 1 then 0
          else if \<not> in_range (bs ! 0) lo hi then 0
          else if n = 2 then 2
          else if \<not> in_range (bs ! 1) 0x80 0xBF then 0
          else if n = 3 then 3
          else if \<not> in_range (bs ! 2) 0x80 0xBF then 0
          else 4)"

function valid_utf8 :: "string \<Rightarrow> bool" where
  "valid_utf8 s =
     (if s = [] then True
      else if rune_size s = 0 then False
      else valid_utf8 (drop (rune_size s) s))"
  by pat_completeness auto
termination
  by (relation "measure length") auto

declare valid_utf8.simps [simp del]

subsection \<open>strings.TrimSpace\<close>

text \<open>
  \<^verbatim>\<open>strings.TrimSpace\<close> removes the leading and the trailing characters for which
  \<^verbatim>\<open>unicode.IsSpace\<close> holds. These are the six ASCII characters tab, line feed, vertical
  tab, form feed, carriage return and space, and U+0085, U+00A0, U+1680, U+2000 to U+200A,
  U+2028, U+2029, U+202F, U+205F and U+3000. A character is recognised in the string by
  its UTF-8 encoding, listed here; a byte that does not belong to a well-formed encoding
  decodes to \<^verbatim>\<open>utf8.RuneError\<close>, which is no space.
\<close>

definition space_encodings :: "string list" where
  "space_encodings =
     [[CHR 0x09], [CHR 0x0A], [CHR 0x0B], [CHR 0x0C], [CHR 0x0D], [CHR 0x20],
      [CHR 0xC2, CHR 0x85], [CHR 0xC2, CHR 0xA0],
      [CHR 0xE1, CHR 0x9A, CHR 0x80],
      [CHR 0xE2, CHR 0x80, CHR 0x80], [CHR 0xE2, CHR 0x80, CHR 0x81],
      [CHR 0xE2, CHR 0x80, CHR 0x82], [CHR 0xE2, CHR 0x80, CHR 0x83],
      [CHR 0xE2, CHR 0x80, CHR 0x84], [CHR 0xE2, CHR 0x80, CHR 0x85],
      [CHR 0xE2, CHR 0x80, CHR 0x86], [CHR 0xE2, CHR 0x80, CHR 0x87],
      [CHR 0xE2, CHR 0x80, CHR 0x88], [CHR 0xE2, CHR 0x80, CHR 0x89],
      [CHR 0xE2, CHR 0x80, CHR 0x8A],
      [CHR 0xE2, CHR 0x80, CHR 0xA8], [CHR 0xE2, CHR 0x80, CHR 0xA9],
      [CHR 0xE2, CHR 0x80, CHR 0xAF],
      [CHR 0xE2, CHR 0x81, CHR 0x9F],
      [CHR 0xE3, CHR 0x80, CHR 0x80]]"

definition leading_space :: "string \<Rightarrow> nat" where
  "leading_space s = (case find (\<lambda>e. prefix e s) space_encodings of None \<Rightarrow> 0 | Some e \<Rightarrow> length e)"

definition trailing_space :: "string \<Rightarrow> nat" where
  "trailing_space s = (case find (\<lambda>e. suffix e s) space_encodings of None \<Rightarrow> 0 | Some e \<Rightarrow> length e)"

function TrimLeft :: "string \<Rightarrow> string" where
  "TrimLeft s = (if leading_space s = 0 \<or> s = [] then s else TrimLeft (drop (leading_space s) s))"
  by pat_completeness auto
termination
  by (relation "measure length") auto

function TrimRight :: "string \<Rightarrow> string" where
  "TrimRight s =
     (if trailing_space s = 0 \<or> s = [] then s else TrimRight (take (length s - trailing_space s) s))"
  by pat_completeness auto
termination
  by (relation "measure length") auto

declare TrimLeft.simps [simp del] TrimRight.simps [simp del]

definition TrimSpace :: "string \<Rightarrow> string" where
  "TrimSpace s = TrimRight (TrimLeft s)"

subsection \<open>Validate\<close>

text \<open>
  \<^verbatim>\<open>Validate\<close> has a pointer receiver and normalises the record in place: the model
  returns the error together with the record as the call leaves it.
\<close>

definition Validate :: "AdapterResult \<Rightarrow> error option \<times> AdapterResult" where
  "Validate r =
     (if Status r \<noteq> StatusSuccess \<and> Status r \<noteq> StatusFailure then
        (Some (ResultError ''status''
                 (''must be either '' @ [CHR 0x27] @ StatusSuccess @ [CHR 0x27] @ '' or '' @
                  [CHR 0x27] @ StatusFailure @ [CHR 0x27])), r)
      else
        let r = r\<lparr>Reason := TrimSpace (Reason r)\<rparr>;
            r = (if Reason r = [] then r\<lparr>Reason := DefaultReason\<rparr> else r);
            r = (if int (length (Reason r)) > maxReasonLength
                 then r\<lparr>Reason := truncateUTF8 (Reason r) maxReasonLength\<rparr> else r);
            r = r\<lparr>Message := TrimSpace (Message r)\<rparr>;
            r = (if Message r = [] then r\<lparr>Message := DefaultMessage\<rparr> else r);
            r = (if int (length (Message r)) > maxMessageLength
                 then r\<lparr>Message := truncateUTF8 (Message r) maxMessageLength\<rparr> else r)
        in (None, r))"

text \<open>
  A string that consists only of whitespace: a concatenation of encoded space characters
  (the empty string among them).
\<close>

definition whitespace_only :: "string \<Rightarrow> bool" where
  "whitespace_only s = (\<exists>es. set es \<subseteq> set space_encodings \<and> s = concat es)"


section \<open>Package k8s: publishing a condition on the Job\<close>

text \<open>
  A \<^verbatim>\<open>time.Time\<close> is an instant, counted from the zero time: \<^verbatim>\<open>IsZero\<close> is equality
  with 0.
\<close>

type_synonym time = int

record JobCondition =
  Type :: string
  Status :: string
  Reason :: string
  Message :: string
  LastTransitionTime :: time

text \<open>The condition of \<^verbatim>\<open>k8s.io/api/batch/v1\<close> and the part of the Job the client touches.\<close>

record batchv1_JobCondition =
  Type :: string
  Status :: string
  LastProbeTime :: time
  LastTransitionTime :: time
  Reason :: string
  Message :: string

record Job =
  ResourceVersion :: string
  Conditions :: "batchv1_JobCondition list"

text \<open>
  What the client reaches outside the process, over a state \<^typ>\<open>'s\<close> of the outside that
  is left open: the two calls of the clientset on \<^verbatim>\<open>BatchV1().Jobs(namespace)\<close>, the clock
  \<^verbatim>\<open>time.Now()\<close> and the rendering of the verb \<^verbatim>\<open>%q\<close> of \<^verbatim>\<open>fmt\<close>. \<^verbatim>\<open>UpdateStatus\<close> also
  returns the updated Job, which the code discards.
\<close>

record 's Clientset =
  Jobs_Get :: "string \<Rightarrow> string \<Rightarrow> 's \<Rightarrow> (error + Job) \<times> 's"
  Jobs_UpdateStatus :: "string \<Rightarrow> Job \<Rightarrow> 's \<Rightarrow> error option \<times> 's"
  time_Now :: "'s \<Rightarrow> time"
  strconv_Quote :: "string \<Rightarrow> string"

record 's Client =
  clientset :: "'s Clientset"
  namespace :: string
  jobName :: string

text \<open>
  The state of the outside together with the list of the calls made so far, in order, so
  that a theorem can say which calls a function makes.
\<close>

record ('s, 'e) world =
  state :: 's
  events :: "'e list"

datatype request = GetRequest string string | UpdateStatusRequest string Job

definition Get :: "'s Client \<Rightarrow> ('s, request) world \<Rightarrow> (error + Job) \<times> ('s, request) world" where
  "Get c w =
     (case Jobs_Get (clientset c) (namespace c) (jobName c) (state w) of
        (res, s') \<Rightarrow> (res, \<lparr>state = s', events = events w @ [GetRequest (namespace c) (jobName c)]\<rparr>))"

definition UpdateStatus :: "'s Client \<Rightarrow> Job \<Rightarrow> ('s, request) world \<Rightarrow> error option \<times> ('s, request) world" where
  "UpdateStatus c job w =
     (case Jobs_UpdateStatus (clientset c) (namespace c) job (state w) of
        (err, s') \<Rightarrow> (err, \<lparr>state = s', events = events w @ [UpdateStatusRequest (namespace c) job]\<rparr>))"

text \<open>
  The loop over \<^verbatim>\<open>job.Status.Conditions\<close>: it skips the conditions of another type and
  stops at the first one of the new condition's type, where it either returns \<^verbatim>\<open>nil\<close> from
  the function (the two are semantically identical) or overwrites index \<^verbatim>\<open>i\<close>.
\<close>

datatype loop_exit = ReturnNil | UpdatedAt nat | NotUpdated

fun conditionLoop :: "batchv1_JobCondition \<Rightarrow> batchv1_JobCondition list \<Rightarrow> nat \<Rightarrow> loop_exit" where
  "conditionLoop newCondition [] i = NotUpdated"
| "conditionLoop newCondition (existing # rest) i =
     (if batchv1_JobCondition.Type existing \<noteq> batchv1_JobCondition.Type newCondition
      then conditionLoop newCondition rest (Suc i)
      else if batchv1_JobCondition.Status existing = batchv1_JobCondition.Status newCondition
            \<and> batchv1_JobCondition.Reason existing = batchv1_JobCondition.Reason newCondition
            \<and> batchv1_JobCondition.Message existing = batchv1_JobCondition.Message newCondition
      then ReturnNil
      else UpdatedAt i)"

text \<open>
  The \<^verbatim>\<open>batchv1.JobCondition\<close> built from the argument of \<^verbatim>\<open>UpdateJobStatus\<close>: its
  transition time is the argument's, or the reading of the clock when that one is zero.
\<close>

definition newJobCondition :: "'s Client \<Rightarrow> JobCondition \<Rightarrow> 's \<Rightarrow> batchv1_JobCondition" where
  "newJobCondition c condition s =
     (let transitionTime =
            (if JobCondition.LastTransitionTime condition = 0 then time_Now (clientset c) s
             else JobCondition.LastTransitionTime condition)
      in \<lparr>batchv1_JobCondition.Type = JobCondition.Type condition,
          Status = JobCondition.Status condition,
          LastProbeTime = 0,
          LastTransitionTime = transitionTime,
          Reason = JobCondition.Reason condition,
          Message = JobCondition.Message condition\<rparr>)"

text \<open>The function that \<^verbatim>\<open>UpdateJobStatus\<close> hands to \<^verbatim>\<open>retry.RetryOnConflict\<close>: one attempt.\<close>

definition updateAttempt ::
  "'s Client \<Rightarrow> JobCondition \<Rightarrow> ('s, request) world \<Rightarrow> error option \<times> ('s, request) world" where
  "updateAttempt c condition w =
     (if JobCondition.Status condition \<noteq> ''True'' \<and> JobCondition.Status condition \<noteq> ''False''
         \<and> JobCondition.Status condition \<noteq> ''Unknown''
      then (Some (ErrorString (''invalid condition status: ''
                    @ strconv_Quote (clientset c) (JobCondition.Status condition)
                    @ '' (expected True/False/Unknown)'')), w)
      else case Get c w of
        (Inl err, w1) \<Rightarrow>
          if errors_IsNotFound err
          then (Some (WrapError (''job '' @ namespace c @ ''/'' @ jobName c @ '' not found: '') err), w1)
          else (Some err, w1)
      | (Inr job, w1) \<Rightarrow>
          let newCondition = newJobCondition c condition (state w1)
          in case conditionLoop newCondition (Conditions job) 0 of
               ReturnNil \<Rightarrow> (None, w1)
             | UpdatedAt i \<Rightarrow>
                 UpdateStatus c (job\<lparr>Conditions := (Conditions job)[i := newCondition]\<rparr>) w1
             | NotUpdated \<Rightarrow>
                 UpdateStatus c (job\<lparr>Conditions := Conditions job @ [newCondition]\<rparr>) w1)"

text \<open>
  \<^verbatim>\<open>retry.RetryOnConflict(backoff, fn)\<close> of client-go calls \<^verbatim>\<open>fn\<close> again while it fails with
  a conflict, \<^verbatim>\<open>backoff.Steps\<close> times at most, and returns the last error;
  \<^verbatim>\<open>retry.DefaultBackoff\<close> has four steps. The pauses between the calls are not modelled.
\<close>

fun RetryOnConflict :: "nat \<Rightarrow> ('w \<Rightarrow> error option \<times> 'w) \<Rightarrow> 'w \<Rightarrow> error option \<times> 'w" where
  "RetryOnConflict 0 fn w = (None, w)"
| "RetryOnConflict (Suc n) fn w =
     (case fn w of
        (None, w') \<Rightarrow> (None, w')
      | (Some err, w') \<Rightarrow>
          if errors_IsConflict err \<and> n \<noteq> 0 then RetryOnConflict n fn w' else (Some err, w'))"

definition DefaultBackoff_Steps :: nat where "DefaultBackoff_Steps = 4"

definition Client_UpdateJobStatus ::
  "'s Client \<Rightarrow> JobCondition \<Rightarrow> ('s, request) world \<Rightarrow> error option \<times> ('s, request) world" where
  "Client_UpdateJobStatus c condition w = RetryOnConflict DefaultBackoff_Steps (updateAttempt c condition) w"

text \<open>
  The specification of the update, in its own words: the new condition is compared with
  the Job's current condition of the same type; when the two have the same status, reason
  and message nothing is written (\<^term>\<open>None\<close>); otherwise the new condition replaces that
  condition, or is appended when the Job has no condition of the type. The current
  condition of a type is the first one of that type in the list.
\<close>

definition spec_publish ::
  "batchv1_JobCondition \<Rightarrow> batchv1_JobCondition list \<Rightarrow> batchv1_JobCondition list option" where
  "spec_publish newCondition conds =
     (case find (\<lambda>e. batchv1_JobCondition.Type e = batchv1_JobCondition.Type newCondition) conds of
        None \<Rightarrow> Some (conds @ [newCondition])
      | Some existing \<Rightarrow>
          if batchv1_JobCondition.Status existing = batchv1_JobCondition.Status newCondition
             \<and> batchv1_JobCondition.Reason existing = batchv1_JobCondition.Reason newCondition
             \<and> batchv1_JobCondition.Message existing = batchv1_JobCondition.Message newCondition
          then None
          else Some (conds[length (takeWhile
                        (\<lambda>e. batchv1_JobCondition.Type e \<noteq> batchv1_JobCondition.Type newCondition)
                        conds) := newCondition]))"


section \<open>Package result: the parser\<close>

text \<open>
  What the parser reads from outside the process, as it stands at the moment of the
  call: \<^verbatim>\<open>os.Stat\<close> (an error, or the size of the file), \<^verbatim>\<open>os.ReadFile\<close>,
  \<^verbatim>\<open>filepath.Abs(filepath.Clean(path))\<close>, and \<^verbatim>\<open>json.Unmarshal\<close> into a zero
  \<^verbatim>\<open>AdapterResult\<close>.
\<close>

record Env =
  os_Stat :: "string \<Rightarrow> error + nat"
  os_ReadFile :: "string \<Rightarrow> error + string"
  filepath_Abs_Clean :: "string \<Rightarrow> error + string"
  json_Unmarshal :: "string \<Rightarrow> error + AdapterResult"

definition maxResultFileSize :: nat where
  "maxResultFileSize = 1 * 1024 * 1024"

definition Parse :: "Env \<Rightarrow> string \<Rightarrow> error + AdapterResult" where
  "Parse env data =
     (case json_Unmarshal env data of
        Inl err \<Rightarrow> Inl (WrapError ''failed to parse JSON: '' err)
      | Inr result \<Rightarrow>
          (case Validate result of
             (Some err, result') \<Rightarrow> Inl (WrapError ''invalid result format: '' err)
           | (None, result') \<Rightarrow> Inr result'))"

definition ParseFile :: "Env \<Rightarrow> string \<Rightarrow> error + AdapterResult" where
  "ParseFile env path =
     (case filepath_Abs_Clean env path of
        Inl err \<Rightarrow> Inl (WrapError (''failed to resolve path='' @ path @ '': '') err)
      | Inr cleanedPath \<Rightarrow>
          (case os_Stat env cleanedPath of
             Inl err \<Rightarrow> Inl (WrapError (''failed to read result file path='' @ cleanedPath @ '': '') err)
           | Inr fileSize \<Rightarrow>
               if fileSize = 0 then
                 Inl (ErrorString (''result file is empty: path='' @ cleanedPath))
               else if fileSize > maxResultFileSize then
                 Inl (ErrorString (''result file too large: path='' @ cleanedPath
                        @ '' size='' @ Itoa (int fileSize) @ '' max='' @ Itoa (int maxResultFileSize)))
               else
                 (case os_ReadFile env cleanedPath of
                    Inl err \<Rightarrow>
                      Inl (WrapError (''failed to read result file path='' @ cleanedPath @ '': '') err)
                  | Inr data \<Rightarrow> Parse env data)))"

section \<open>Package reporter\<close>

definition ConditionStatusTrue :: string where "ConditionStatusTrue = ''True''"
definition ConditionStatusFalse :: string where "ConditionStatusFalse = ''False''"
definition ReasonAdapterCrashed :: string where "ReasonAdapterCrashed = ''AdapterCrashed''"
definition ReasonAdapterOOMKilled :: string where "ReasonAdapterOOMKilled = ''AdapterOOMKilled''"
definition ReasonAdapterExitedWithError :: string where
  "ReasonAdapterExitedWithError = ''AdapterExitedWithError''"
definition ReasonAdapterTimeout :: string where "ReasonAdapterTimeout = ''AdapterTimeout''"
definition ReasonInvalidResultFormat :: string where
  "ReasonInvalidResultFormat = ''InvalidResultFormat''"
definition ReasonAdapterMissingResults :: string where
  "ReasonAdapterMissingResults = ''AdapterMissingResults''"
definition ContainerReasonOOMKilled :: string where "ContainerReasonOOMKilled = ''OOMKilled''"

text \<open>
  The part of \<^verbatim>\<open>corev1.ContainerStatus\<close> the reporter reads. \<^verbatim>\<open>ExitCode\<close> is an \<^verbatim>\<open>int32\<close>;
  \<^verbatim>\<open>State.Terminated\<close> is a pointer, \<^term>\<open>None\<close> when it is \<^verbatim>\<open>nil\<close>.
\<close>

record ContainerStateTerminated =
  ExitCode :: "32 word"
  Reason :: string

record ContainerState =
  Terminated :: "ContainerStateTerminated option"

record ContainerStatus =
  Name :: string
  State :: ContainerState

text \<open>
  \<^verbatim>\<open>K8sClientInterface\<close>: any implementation, over a state \<^typ>\<open>'s\<close> of its own.
  \<^verbatim>\<open>GetAdapterContainerStatus\<close> returns a pointer and an error, each of which may be
  \<^verbatim>\<open>nil\<close>.
\<close>

record 's K8sClientInterface =
  UpdateJobStatus :: "JobCondition \<Rightarrow> 's \<Rightarrow> error option \<times> 's"
  GetAdapterContainerStatus ::
    "string \<Rightarrow> string \<Rightarrow> 's \<Rightarrow> (ContainerStatus option \<times> error option) \<times> 's"

record 's StatusReporter =
  resultsPath :: string
  pollInterval :: Duration
  maxWaitTime :: Duration
  containerStatusCheckInterval :: Duration
  conditionType :: string
  podName :: string
  adapterContainerName :: string
  k8sClient :: "'s K8sClientInterface"

datatype call = UpdateJobStatusCall JobCondition | GetAdapterContainerStatusCall string string

text \<open>The two calls through the interface, each recorded in the list of calls.\<close>

definition callUpdateJobStatus ::
  "'s StatusReporter \<Rightarrow> JobCondition \<Rightarrow> ('s, call) world \<Rightarrow> error option \<times> ('s, call) world" where
  "callUpdateJobStatus r condition w =
     (case UpdateJobStatus (k8sClient r) condition (state w) of
        (err, s') \<Rightarrow> (err, \<lparr>state = s', events = events w @ [UpdateJobStatusCall condition]\<rparr>))"

definition callGetAdapterContainerStatus ::
  "'s StatusReporter \<Rightarrow> string \<Rightarrow> string \<Rightarrow> ('s, call) world
     \<Rightarrow> (ContainerStatus option \<times> error option) \<times> ('s, call) world" where
  "callGetAdapterContainerStatus r pod container w =
     (case GetAdapterContainerStatus (k8sClient r) pod container (state w) of
        (res, s') \<Rightarrow>
          (res, \<lparr>state = s', events = events w @ [GetAdapterContainerStatusCall pod container]\<rparr>))"

text \<open>
  The functions below take the pointers \<^verbatim>\<open>adapterResult\<close> and \<^verbatim>\<open>terminated\<close> as values:
  the code dereferences them at once, and its callers pass pointers that are not \<^verbatim>\<open>nil\<close>.
  The lines written to the log are left out.
\<close>

definition tryParseResultFile :: "Env \<Rightarrow> 's StatusReporter \<Rightarrow> error + AdapterResult" where
  "tryParseResultFile env r =
     (case os_Stat env (resultsPath r) of
        Inl err \<Rightarrow> Inl err
      | Inr fileInfo \<Rightarrow>
          (case ParseFile env (resultsPath r) of
             Inl err \<Rightarrow> Inl (WrapError ''parse failed: '' err)
           | Inr adapterResult \<Rightarrow> Inr adapterResult))"

definition UpdateFromResult ::
  "'s StatusReporter \<Rightarrow> AdapterResult \<Rightarrow> ('s, call) world \<Rightarrow> error option \<times> ('s, call) world" where
  "UpdateFromResult r adapterResult w =
     (let conditionStatus = (if \<not> IsSuccess adapterResult then ConditionStatusFalse else ConditionStatusTrue);
          condition = \<lparr>JobCondition.Type = conditionType r,
                       Status = conditionStatus,
                       Reason = AdapterResult.Reason adapterResult,
                       Message = AdapterResult.Message adapterResult,
                       LastTransitionTime = 0\<rparr>
      in case callUpdateJobStatus r condition w of
           (Some err, w') \<Rightarrow>
             (Some (WrapError (''failed to update job status: pod='' @ podName r @ '' condition=''
                      @ conditionType r @ '': '') err), w')
         | (None, w') \<Rightarrow> (None, w'))"

text \<open>The verb \<^verbatim>\<open>%v\<close> prints an error with its \<^verbatim>\<open>Error\<close> method, and \<^verbatim>\<open>nil\<close> as \<^verbatim>\<open><nil>\<close>.\<close>

definition fmt_v :: "error option \<Rightarrow> string" where
  "fmt_v err = (case err of None \<Rightarrow> ''<nil>'' | Some e \<Rightarrow> Error e)"

definition UpdateFromError ::
  "'s StatusReporter \<Rightarrow> error option \<Rightarrow> ('s, call) world \<Rightarrow> error option \<times> ('s, call) world" where
  "UpdateFromError r err w =
     (let condition = \<lparr>JobCondition.Type = conditionType r,
                       Status = ConditionStatusFalse,
                       Reason = ReasonInvalidResultFormat,
                       Message = ''Failed to parse adapter result: '' @ fmt_v err,
                       LastTransitionTime = 0\<rparr>
      in case callUpdateJobStatus r condition w of
           (Some updateErr, w') \<Rightarrow> (Some (WrapError ''failed to update job status: '' updateErr), w')
         | (None, w') \<Rightarrow> (err, w'))"

definition UpdateFromTerminatedContainer ::
  "'s StatusReporter \<Rightarrow> ContainerStateTerminated \<Rightarrow> ('s, call) world
     \<Rightarrow> error option \<times> ('s, call) world" where
  "UpdateFromTerminatedContainer r terminated w =
     (let (reason, message) =
            (if ContainerStateTerminated.Reason terminated = ContainerReasonOOMKilled then
               (ReasonAdapterOOMKilled,
                ''Adapter container was killed due to out of memory (OOMKilled)'')
             else if ExitCode terminated \<noteq> 0 then
               (ReasonAdapterExitedWithError,
                ''Adapter container exited with code '' @ Itoa (sint (ExitCode terminated)) @ '': ''
                  @ ContainerStateTerminated.Reason terminated)
             else
               (ReasonAdapterMissingResults,
                ''Adapter container exited successfully (code 0) but did not produce a valid result file: ''
                  @ ContainerStateTerminated.Reason terminated));
          condition = \<lparr>JobCondition.Type = conditionType r,
                       Status = ConditionStatusFalse,
                       Reason = reason,
                       Message = message,
                       LastTransitionTime = 0\<rparr>
      in case callUpdateJobStatus r condition w of
           (Some err, w') \<Rightarrow> (Some (WrapError ''failed to update job status: '' err), w')
         | (None, w') \<Rightarrow> (Some (ErrorString (''adapter container terminated: '' @ message)), w'))"

definition UpdateFromTimeout ::
  "'s StatusReporter \<Rightarrow> ('s, call) world \<Rightarrow> error option \<times> ('s, call) world" where
  "UpdateFromTimeout r w =
     (case callGetAdapterContainerStatus r (podName r) (adapterContainerName r) w of
        ((containerStatus, err), w1) \<Rightarrow>
          let timeout =
                (let condition = \<lparr>JobCondition.Type = conditionType r,
                                  Status = ConditionStatusFalse,
                                  Reason = ReasonAdapterTimeout,
                                  Message = ''Adapter did not produce results within ''
                                            @ Duration_String (maxWaitTime r),
                                  LastTransitionTime = 0\<rparr>
                 in case callUpdateJobStatus r condition w1 of
                      (Some err, w') \<Rightarrow> (Some (WrapError ''failed to update job status: '' err), w')
                    | (None, w') \<Rightarrow> (Some (ErrorString ''timeout waiting for adapter results''), w'))
          in if err \<noteq> None then timeout
             else (case containerStatus of
                     None \<Rightarrow> timeout
                   | Some cs \<Rightarrow>
                       (case Terminated (State cs) of
                          None \<Rightarrow> timeout
                        | Some terminated \<Rightarrow> UpdateFromTerminatedContainer r terminated w1)))"

text \<open>
  The \<^verbatim>\<open>switch\<close> of \<^verbatim>\<open>HandleTermination\<close> returns from its first case, a parsed record; its
  two cases for an error, \<^verbatim>\<open>errors.Is(err, os.ErrNotExist)\<close> and any other error, write
  different lines to the log and both go on to \<^verbatim>\<open>UpdateFromTerminatedContainer\<close>.
\<close>

definition HandleTermination ::
  "Env \<Rightarrow> 's StatusReporter \<Rightarrow> ContainerStateTerminated \<Rightarrow> ('s, call) world
     \<Rightarrow> error option \<times> ('s, call) world" where
  "HandleTermination env r terminated w =
     (case tryParseResultFile env r of
        Inr adapterResult \<Rightarrow> UpdateFromResult r adapterResult w
      | Inl err \<Rightarrow>
          if errors_Is_ErrNotExist err then UpdateFromTerminatedContainer r terminated w
          else UpdateFromTerminatedContainer r terminated w)"

text \<open>
  \<^verbatim>\<open>Run\<close> starts the two polling goroutines and waits in a \<^verbatim>\<open>select\<close> for the first of a
  result, an error, a termination or the end of the deadline; at the deadline a second
  \<^verbatim>\<open>select\<close> takes a signal that is already in a channel and otherwise falls to its
  \<^verbatim>\<open>default\<close>. Which signal the two \<^verbatim>\<open>select\<close>s take is the input of the model; what
  \<^verbatim>\<open>Run\<close> then does and returns is \<^term>\<open>resolve\<close>.
\<close>

datatype signal =
    ResultSignal AdapterResult
  | ErrorSignal error
  | TerminatedSignal ContainerStateTerminated
  | DeadlineSignal

definition resolve ::
  "Env \<Rightarrow> 's StatusReporter \<Rightarrow> signal \<Rightarrow> ('s, call) world \<Rightarrow> error option \<times> ('s, call) world" where
  "resolve env r sig w =
     (case sig of
        ResultSignal adapterResult \<Rightarrow> UpdateFromResult r adapterResult w
      | ErrorSignal err \<Rightarrow> UpdateFromError r (Some err) w
      | TerminatedSignal terminated \<Rightarrow> HandleTermination env r terminated w
      | DeadlineSignal \<Rightarrow> UpdateFromTimeout r w)"

section \<open>Sample inputs\<close>

text \<open>
  A string of 130 bytes whose bytes 127 and 128 encode one character, and a string whose
  first byte is followed by 200 continuation bytes.
\<close>

definition sample_long :: string where
  "sample_long = replicate 127 (CHR ''a'') @ [CHR 0xC3, CHR 0xA9, CHR ''b'']"

definition sample_continuation_bytes :: string where
  "sample_continuation_bytes = CHR ''A'' # replicate 200 (CHR 0xBF)"

definition sample_result :: AdapterResult where
  "sample_result =
     \<lparr>AdapterResult.Status = ''success'', Reason = ''  '', Message = [], Details = []\<rparr>"

definition sample_bad_status :: AdapterResult where
  "sample_bad_status =
     \<lparr>AdapterResult.Status = ''Success'', Reason = ''  r  '', Message = [], Details = []\<rparr>"

definition sample_bad_reason :: AdapterResult where
  "sample_bad_reason =
     \<lparr>AdapterResult.Status = ''success'', Reason = sample_continuation_bytes,
      Message = ''m'', Details = []\<rparr>"

text \<open>
  A results file with a valid artifact or without any, an implementation of the client
  interface that answers every call the same way, and a reporter configured like the one
  of the repository's tests. The sample \<open>json.Unmarshal\<close> decodes the two sample documents.
\<close>

definition sample_path :: string where
  "sample_path = ''/results/adapter-result.json''"

definition sample_json :: string where
  \<open>sample_json = ''{"status":"success","reason":"AllChecksPassed","message":"All validations passed"}''\<close>

definition sample_failure_json :: string where
  \<open>sample_failure_json = ''{"status":"failure","reason":"ValidationFailed","message":"Validation checks failed"}''\<close>

definition sample_unmarshal :: "string \<Rightarrow> error + AdapterResult" where
  "sample_unmarshal data =
     (if data = sample_json then
        Inr \<lparr>AdapterResult.Status = ''success'', Reason = ''AllChecksPassed'',
             Message = ''All validations passed'', Details = []\<rparr>
      else if data = sample_failure_json then
        Inr \<lparr>AdapterResult.Status = ''failure'', Reason = ''ValidationFailed'',
             Message = ''Validation checks failed'', Details = []\<rparr>
      else Inl (External OtherKind ''invalid character''))"

definition env_with_file :: "string \<Rightarrow> Env" where
  "env_with_file content =
     \<lparr>os_Stat = (\<lambda>p. if p = sample_path then Inr (length content)
                       else Inl (External NotExist (''stat '' @ p @ '': no such file or directory''))),
      os_ReadFile = (\<lambda>p. if p = sample_path then Inr content
                           else Inl (External NotExist (''open '' @ p @ '': no such file or directory''))),
      filepath_Abs_Clean = Inr,
      json_Unmarshal = sample_unmarshal\<rparr>"

definition env_without_file :: Env where
  "env_without_file =
     \<lparr>os_Stat = (\<lambda>p. Inl (External NotExist (''stat '' @ p @ '': no such file or directory''))),
      os_ReadFile = (\<lambda>p. Inl (External NotExist (''open '' @ p @ '': no such file or directory''))),
      filepath_Abs_Clean = Inr,
      json_Unmarshal = sample_unmarshal\<rparr>"

definition mock_client :: "ContainerStatus option \<Rightarrow> error option \<Rightarrow> unit K8sClientInterface" where
  "mock_client containerStatus updateErr =
     \<lparr>UpdateJobStatus = (\<lambda>condition s. (updateErr, s)),
      GetAdapterContainerStatus = (\<lambda>pod container s. ((containerStatus, None), s))\<rparr>"

definition sample_reporter :: "ContainerStatus option \<Rightarrow> error option \<Rightarrow> unit StatusReporter" where
  "sample_reporter containerStatus updateErr =
     \<lparr>resultsPath = sample_path,
      pollInterval = 2000000000,
      maxWaitTime = 300000000000,
      containerStatusCheckInterval = 10000000000,
      conditionType = ''Available'',
      podName = ''test-pod'',
      adapterContainerName = ''adapter'',
      k8sClient = mock_client containerStatus updateErr\<rparr>"

definition terminated_with :: "string \<Rightarrow> 32 word \<Rightarrow> ContainerStateTerminated" where
  "terminated_with reason code = \<lparr>ExitCode = code, Reason = reason\<rparr>"

definition status_terminated :: "string \<Rightarrow> 32 word \<Rightarrow> ContainerStatus" where
  "status_terminated reason code =
     \<lparr>Name = ''adapter'', State = \<lparr>Terminated = Some (terminated_with reason code)\<rparr>\<rparr>"

definition status_running :: ContainerStatus where
  "status_running = \<lparr>Name = ''adapter'', State = \<lparr>Terminated = None\<rparr>\<rparr>"

definition empty_world :: "(unit, call) world" where
  "empty_world = \<lparr>state = (), events = []\<rparr>"

text \<open>
  A clientset that keeps the Job in memory: \<open>Get\<close> returns the stored Job and
  \<open>UpdateStatus\<close> stores the Job it is given. The clock reads 1000.
\<close>

definition memory_clientset :: "Job Clientset" where
  "memory_clientset =
     \<lparr>Jobs_Get = (\<lambda>ns name job. (Inr job, job)),
      Jobs_UpdateStatus = (\<lambda>ns job stored. (None, job)),
      time_Now = (\<lambda>job. 1000),
      strconv_Quote = (\<lambda>s. [CHR 0x22] @ s @ [CHR 0x22])\<rparr>"

definition sample_client :: "Job Client" where
  "sample_client = \<lparr>clientset = memory_clientset, namespace = ''ns'', jobName = ''job''\<rparr>"

definition condition_complete :: batchv1_JobCondition where
  "condition_complete =
     \<lparr>batchv1_JobCondition.Type = ''Complete'', Status = ''False'', LastProbeTime = 0,
      LastTransitionTime = 3, Reason = ''r'', Message = ''m''\<rparr>"

definition condition_available :: batchv1_JobCondition where
  "condition_available =
     \<lparr>batchv1_JobCondition.Type = ''Available'', Status = ''False'', LastProbeTime = 0,
      LastTransitionTime = 5, Reason = ''AdapterTimeout'', Message = ''m''\<rparr>"

definition sample_job :: Job where
  "sample_job = \<lparr>ResourceVersion = ''1'', Conditions = [condition_complete, condition_available]\<rparr>"

definition sample_cluster :: "(Job, request) world" where
  "sample_cluster = \<lparr>state = sample_job, events = []\<rparr>"

definition sample_condition :: JobCondition where
  "sample_condition =
     \<lparr>JobCondition.Type = ''Available'', Status = ''False'', Reason = ''AdapterTimeout'',
      Message = ''m'', LastTransitionTime = 0\<rparr>"

section \<open>Properties of the validation\<close>

lemma RuneStart_iff: "RuneStart b \<longleftrightarrow> \<not> (128 \<le> (of_char b :: nat) \<and> (of_char b :: nat) < 192)"
proof (cases b)
  case (Char b0 b1 b2 b3 b4 b5 b6 b7)
  show ?thesis unfolding Char RuneStart_def
    by (cases b0; cases b1; cases b2; cases b3; cases b4; cases b5; cases b6; cases b7; simp)
qed

lemma lead_byte_Some: "lead_byte x = Some (n, lo, hi) \<Longrightarrow> 0xC2 \<le> x \<and> 2 \<le> n \<and> n \<le> 4 \<and> 0x80 \<le> lo \<and> hi \<le> 0xBF"
  by (auto simp: lead_byte_def split: if_splits)

lemma in_range_cont: "in_range b lo hi \<Longrightarrow> 0x80 \<le> lo \<Longrightarrow> hi \<le> 0xBF \<Longrightarrow> \<not> RuneStart b"
  by (auto simp: in_range_def RuneStart_iff)

lemma rune_size_cases:
  assumes "0 < rune_size s"
  obtains b bs where "s = b # bs" "(of_char b :: nat) < 0x80" "rune_size s = 1"
  | b bs n lo hi where "s = b # bs" "rune_size s = n" "lead_byte (of_char b) = Some (n, lo, hi)"
      "n - 1 \<le> length bs" "in_range (bs ! 0) lo hi"
      "3 \<le> n \<Longrightarrow> in_range (bs ! 1) 0x80 0xBF"
      "4 \<le> n \<Longrightarrow> in_range (bs ! 2) 0x80 0xBF"
proof (cases s)
  case Nil with assms show ?thesis by simp
next
  case (Cons b bs)
  show ?thesis
  proof (cases "(of_char b :: nat) < 0x80")
    case True with Cons that(1) show ?thesis by simp
  next
    case False
    with assms Cons obtain n lo hi where lb: "lead_byte (of_char b) = Some (n, lo, hi)"
      by (cases "lead_byte (of_char b)") auto
    from lead_byte_Some[OF lb] have n: "n = 2 \<or> n = 3 \<or> n = 4" by arith
    from assms Cons False lb n have "rune_size s = n"
      by (auto split: if_splits)
    moreover from assms Cons False lb n have "n - 1 \<le> length bs" "in_range (bs ! 0) lo hi"
      "3 \<le> n \<Longrightarrow> in_range (bs ! 1) 0x80 0xBF" "4 \<le> n \<Longrightarrow> in_range (bs ! 2) 0x80 0xBF"
      by (auto split: if_splits)
    ultimately show ?thesis using that(2)[of b bs n lo hi] Cons lb by simp
  qed
qed

lemma rune_size_le: "rune_size s \<le> length s"
proof (cases "0 < rune_size s")
  case True then show ?thesis
    by (cases rule: rune_size_cases) (auto simp del: rune_size.simps)
qed simp

lemma rune_size_le4: "rune_size s \<le> 4"
proof (cases "0 < rune_size s")
  case True then show ?thesis
    by (cases rule: rune_size_cases) (auto simp del: rune_size.simps dest: lead_byte_Some)
qed simp

lemma rune_size_start: "0 < rune_size s \<Longrightarrow> RuneStart (s ! 0)"
  by (erule rune_size_cases) (auto simp: RuneStart_iff simp del: rune_size.simps dest!: lead_byte_Some)

lemma rune_size_cont:
  assumes "0 < j" "j < rune_size s"
  shows "\<not> RuneStart (s ! j)"
proof -
  from assms have "0 < rune_size s" by simp
  then show ?thesis
  proof (cases rule: rune_size_cases)
    case (1 b bs) with assms show ?thesis by simp
  next
    case (2 b bs n lo hi)
    note lb = lead_byte_Some[OF 2(3)]
    have "j = 1 \<or> j = 2 \<or> j = 3" using assms lb 2(2) by arith
    moreover have "\<not> RuneStart (bs ! 0)" using 2(5) lb by (auto dest: in_range_cont)
    moreover have "3 \<le> n \<Longrightarrow> \<not> RuneStart (bs ! 1)" using 2(6) by (auto dest: in_range_cont)
    moreover have "4 \<le> n \<Longrightarrow> \<not> RuneStart (bs ! 2)" using 2(7) by (auto dest: in_range_cont)
    moreover have "j < n" using assms 2(2) by simp
    ultimately show ?thesis unfolding 2(1) by (auto simp: numeral_2_eq_2 numeral_3_eq_3)
  qed
qed

lemma rune_size_take:
  assumes "0 < rune_size s" "rune_size s \<le> i"
  shows "rune_size (take i s) = rune_size s"
  using assms(1)
proof (cases rule: rune_size_cases)
  case (1 b bs) with assms show ?thesis by (cases i) auto
next
  case (2 b bs n lo hi)
  note lb = lead_byte_Some[OF 2(3)]
  obtain k where i: "i = Suc k" using assms 2(2) lb by (cases i) auto
  have n: "n = 2 \<or> n = 3 \<or> n = 4" using lb by arith
  have k: "n - 1 \<le> k" using assms 2(2) i by simp
  have nb: "\<not> (of_char b :: nat) < 0x80" using lb by simp
  have "rune_size (b # take k bs) = n"
    using 2(3-7) n k nb by (auto simp add: min_def)
  then show ?thesis using 2(1,2) i by (simp del: rune_size.simps)
qed


lemma valid_utf8_Nil: "valid_utf8 []"
  by (simp add: valid_utf8.simps)

lemma valid_utf8_step:
  "s \<noteq> [] \<Longrightarrow> valid_utf8 s \<longleftrightarrow> 0 < rune_size s \<and> valid_utf8 (drop (rune_size s) s)"
  by (subst valid_utf8.simps) simp

lemma valid_utf8_boundary:
  "valid_utf8 s \<Longrightarrow> i < length s \<Longrightarrow> RuneStart (s ! i) \<Longrightarrow>
     valid_utf8 (take i s) \<and> valid_utf8 (drop i s)"
proof (induction s arbitrary: i rule: valid_utf8.induct)
  case (1 s)
  from "1.prems" have ne: "s \<noteq> []" by auto
  with "1.prems"(1) have n: "0 < rune_size s" and rest: "valid_utf8 (drop (rune_size s) s)"
    by (simp_all add: valid_utf8_step)
  show ?case
  proof (cases "i = 0")
    case True
    with "1.prems" show ?thesis by (simp add: valid_utf8_Nil)
  next
    case False
    have ge: "rune_size s \<le> i"
    proof (rule ccontr)
      assume "\<not> rune_size s \<le> i"
      with False have "0 < i" "i < rune_size s" by simp_all
      from rune_size_cont[OF this] "1.prems"(3) show False by simp
    qed
    have len: "i - rune_size s < length (drop (rune_size s) s)"
      using ge "1.prems"(2) by simp
    have nth: "drop (rune_size s) s ! (i - rune_size s) = s ! i"
      using ge "1.prems"(2) by simp
    from "1.IH"[OF ne _ rest len] n nth "1.prems"(3)
    have ih: "valid_utf8 (take (i - rune_size s) (drop (rune_size s) s))"
         "valid_utf8 (drop (i - rune_size s) (drop (rune_size s) s))"
      by simp_all
    have tne: "take i s \<noteq> []" using False ne by simp
    have rs: "rune_size (take i s) = rune_size s" by (rule rune_size_take[OF n ge])
    have "drop (rune_size s) (take i s) = take (i - rune_size s) (drop (rune_size s) s)"
      by (simp add: drop_take)
    with ih(1) rs n tne have "valid_utf8 (take i s)"
      by (simp add: valid_utf8_step)
    moreover from ih(2) ge have "valid_utf8 (drop i s)" by simp
    ultimately show ?thesis ..
  qed
qed

lemma valid_utf8_start_near:
  "valid_utf8 s \<Longrightarrow> i < length s \<Longrightarrow> \<exists>k<4. k \<le> i \<and> RuneStart (s ! (i - k))"
proof (induction s arbitrary: i rule: valid_utf8.induct)
  case (1 s)
  from "1.prems" have ne: "s \<noteq> []" by auto
  with "1.prems"(1) have n: "0 < rune_size s" and rest: "valid_utf8 (drop (rune_size s) s)"
    by (simp_all add: valid_utf8_step)
  show ?case
  proof (cases "i < rune_size s")
    case True
    with rune_size_le4[of s] have "i < 4" by simp
    moreover have "RuneStart (s ! (i - i))" using rune_size_start[OF n] by simp
    ultimately show ?thesis by blast
  next
    case False
    then have ge: "rune_size s \<le> i" by simp
    have len: "i - rune_size s < length (drop (rune_size s) s)"
      using ge "1.prems"(2) by simp
    from "1.IH"[OF ne _ rest len] n
    obtain k where k: "k < 4" "k \<le> i - rune_size s"
        "RuneStart (drop (rune_size s) s ! (i - rune_size s - k))"
      by auto
    have "drop (rune_size s) s ! (i - rune_size s - k) = s ! (i - k)"
      using ge k(2) "1.prems"(2) by simp
    with k show ?thesis by (intro exI[of _ k]) auto
  qed
qed

lemma truncateLoop_take:
  "\<exists>j\<le>m. truncateLoop s m = take j s \<and> (0 < j \<longrightarrow> RuneStart (s ! j)) \<and>
          (\<forall>k. j < k \<and> k \<le> m \<longrightarrow> \<not> RuneStart (s ! k))"
proof (induction m)
  case 0
  show ?case by simp
next
  case (Suc m)
  show ?case
  proof (cases "RuneStart (s ! Suc m)")
    case True
    then show ?thesis by (intro exI[of _ "Suc m"]) auto
  next
    case False
    from Suc obtain j where j: "j \<le> m" "truncateLoop s m = take j s"
        "0 < j \<longrightarrow> RuneStart (s ! j)" "\<forall>k. j < k \<and> k \<le> m \<longrightarrow> \<not> RuneStart (s ! k)"
      by blast
    have "\<forall>k. j < k \<and> k \<le> Suc m \<longrightarrow> \<not> RuneStart (s ! k)"
      using j(4) False by (auto simp: le_Suc_eq)
    with j False show ?thesis by (intro exI[of _ j]) simp
  qed
qed

text \<open>
  Claim C7. For a well-formed UTF-8 string \<open>s\<close> longer than the limit (128 bytes for the
  reason, 1024 for the message; any limit that is not negative), \<open>truncateUTF8\<close> returns
  a prefix of \<open>s\<close> of at most the limit in bytes, which is well-formed UTF-8 itself and
  ends on a character boundary: what it cuts off is well-formed UTF-8 too, so no encoded
  character is split.
\<close>

theorem truncateUTF8_ok:
  assumes "valid_utf8 s" "maxBytes < int (length s)" "0 \<le> maxBytes"
  shows "prefix (truncateUTF8 s maxBytes) s \<and>
         int (length (truncateUTF8 s maxBytes)) \<le> maxBytes \<and>
         valid_utf8 (truncateUTF8 s maxBytes) \<and>
         valid_utf8 (drop (length (truncateUTF8 s maxBytes)) s)"
proof -
  let ?m = "nat maxBytes"
  have m: "?m < length s" using assms by simp
  have eq: "truncateUTF8 s maxBytes = truncateLoop s ?m"
    using assms by (simp add: truncateUTF8_def)
  from truncateLoop_take[of ?m s] obtain j where j: "j \<le> ?m" "truncateLoop s ?m = take j s"
      "0 < j \<longrightarrow> RuneStart (s ! j)"
    by blast
  have len: "length (take j s) = j" using j(1) m by simp
  have v: "valid_utf8 (take j s) \<and> valid_utf8 (drop j s)"
  proof (cases "j = 0")
    case True with assms(1) show ?thesis by (simp add: valid_utf8_Nil)
  next
    case False
    with j m valid_utf8_boundary[OF assms(1), of j] show ?thesis by simp
  qed
  show ?thesis
    unfolding eq j(2) len using v j(1) assms(3) by (simp add: take_is_prefix)
qed

lemma valid_sample_long: "valid_utf8 sample_long"
  unfolding sample_long_def by code_simp

lemma truncateUTF8_sample_long: "truncateUTF8 sample_long 128 = replicate 127 (CHR ''a'')"
  unfolding sample_long_def by code_simp

theorem truncateUTF8_ok_witness:
  "valid_utf8 sample_long \<and> 128 < int (length sample_long) \<and>
   truncateUTF8 sample_long 128 = replicate 127 (CHR ''a'') \<and>
   prefix (truncateUTF8 sample_long 128) sample_long \<and>
   int (length (truncateUTF8 sample_long 128)) \<le> 128 \<and>
   valid_utf8 (truncateUTF8 sample_long 128) \<and>
   valid_utf8 (drop (length (truncateUTF8 sample_long 128)) sample_long)"
proof -
  have l: "128 < int (length sample_long)" by (simp add: sample_long_def)
  from truncateUTF8_ok[OF valid_sample_long l] valid_sample_long l truncateUTF8_sample_long
  show ?thesis by simp
qed

lemma truncateLoop_nonempty:
  assumes "valid_utf8 s" "m < length s" "4 \<le> m"
  shows "truncateLoop s m \<noteq> []"
proof -
  from truncateLoop_take[of m s] obtain j where j: "j \<le> m" "truncateLoop s m = take j s"
      "\<forall>k. j < k \<and> k \<le> m \<longrightarrow> \<not> RuneStart (s ! k)"
    by blast
  from valid_utf8_start_near[OF assms(1,2)] obtain k where k: "k < 4" "k \<le> m" "RuneStart (s ! (m - k))"
    by blast
  have "\<not> j < m - k" using j(3) k by auto
  then have "0 < j" using k(1) assms(3) by arith
  with j(2) assms(2) show ?thesis by auto
qed

lemma space_ne: "\<forall>e\<in>set space_encodings. e \<noteq> []"
  unfolding space_encodings_def by simp

lemma space_start: "\<forall>e\<in>set space_encodings. RuneStart (hd e)"
  unfolding space_encodings_def by (simp add: RuneStart_def)

lemma space_last: "\<forall>e\<in>set space_encodings. of_char (last e) \<noteq> (0xBF::nat)"
  unfolding space_encodings_def by simp

lemma space_rune_size: "\<forall>e\<in>set space_encodings. rune_size (e @ rest) = length e"
  unfolding space_encodings_def by (simp add: lead_byte_def in_range_def)

lemma space_leading: "\<forall>e\<in>set space_encodings. leading_space (e @ rest) = length e"
  unfolding space_encodings_def leading_space_def by simp


lemma leading_space_prefix:
  assumes "leading_space s \<noteq> 0"
  obtains e rest where "e \<in> set space_encodings" "s = e @ rest" "leading_space s = length e"
proof -
  from assms obtain e where f: "find (\<lambda>e. prefix e s) space_encodings = Some e"
      and l: "leading_space s = length e"
    by (auto simp: leading_space_def split: option.splits)
  from f have "e \<in> set space_encodings" "prefix e s"
    by (auto simp: find_Some_iff)
  then show ?thesis using l that by (auto simp: prefix_def)
qed

lemma trailing_space_suffix:
  assumes "trailing_space s \<noteq> 0"
  obtains e pre where "e \<in> set space_encodings" "s = pre @ e" "trailing_space s = length e"
proof -
  from assms obtain e where f: "find (\<lambda>e. suffix e s) space_encodings = Some e"
      and l: "trailing_space s = length e"
    by (auto simp: trailing_space_def split: option.splits)
  from f have "e \<in> set space_encodings" "suffix e s"
    by (auto simp: find_Some_iff)
  then show ?thesis using l that by (auto simp: suffix_def)
qed

lemma TrimLeft_concat:
  "set es \<subseteq> set space_encodings \<Longrightarrow> TrimLeft (concat es) = []"
proof (induction es)
  case Nil
  show ?case by (subst TrimLeft.simps) simp
next
  case (Cons e es)
  then have e: "e \<in> set space_encodings" and ih: "TrimLeft (concat es) = []" by simp_all
  from e space_leading[of "concat es"] space_ne
  have l: "leading_space (e @ concat es) = length e" "e \<noteq> []" by auto
  show ?case
    by (subst TrimLeft.simps) (simp add: l ih)
qed

lemma TrimRight_Nil: "TrimRight [] = []"
  by (subst TrimRight.simps) simp

lemma TrimSpace_whitespace_only: "whitespace_only s \<Longrightarrow> TrimSpace s = []"
  by (auto simp: whitespace_only_def TrimSpace_def TrimLeft_concat TrimRight_Nil)

lemma TrimLeft_valid: "valid_utf8 s \<Longrightarrow> valid_utf8 (TrimLeft s)"
proof (induction s rule: TrimLeft.induct)
  case (1 s)
  show ?case
  proof (cases "leading_space s = 0 \<or> s = []")
    case True
    with "1.prems" show ?thesis by (subst TrimLeft.simps) simp
  next
    case False
    then have ls: "leading_space s \<noteq> 0" and ne: "s \<noteq> []" by simp_all
    from ls obtain e rest where e: "e \<in> set space_encodings" "s = e @ rest"
        "leading_space s = length e"
      by (rule leading_space_prefix)
    from e(1,2) space_rune_size[of rest] have "rune_size s = length e" by simp
    with "1.prems" ne e(3) have "valid_utf8 (drop (leading_space s) s)"
      by (simp add: valid_utf8_step)
    from "1.IH"[OF False this] False show ?thesis
      by (subst TrimLeft.simps) simp
  qed
qed

lemma TrimRight_valid: "valid_utf8 s \<Longrightarrow> valid_utf8 (TrimRight s)"
proof (induction s rule: TrimRight.induct)
  case (1 s)
  show ?case
  proof (cases "trailing_space s = 0 \<or> s = []")
    case True
    with "1.prems" show ?thesis by (subst TrimRight.simps) simp
  next
    case False
    then have ts: "trailing_space s \<noteq> 0" by simp
    from ts obtain e pre where e: "e \<in> set space_encodings" "s = pre @ e"
        "trailing_space s = length e"
      by (rule trailing_space_suffix)
    from e(1) space_ne space_start have ene: "e \<noteq> []" and st: "RuneStart (hd e)" by auto
    have tk: "take (length s - trailing_space s) s = pre" using e by simp
    have "valid_utf8 pre"
    proof (cases "pre = []")
      case True then show ?thesis by (simp add: valid_utf8_Nil)
    next
      case False
      have "s ! length pre = hd e" using e(2) ene by (simp add: nth_append hd_conv_nth)
      moreover have "length pre < length s" using e(2) ene by simp
      ultimately have "valid_utf8 (take (length pre) s)"
        using valid_utf8_boundary[OF "1.prems", of "length pre"] st by simp
      then show ?thesis using e(2) by simp
    qed
    with "1.IH"[OF False] tk False show ?thesis
      by (subst TrimRight.simps) simp
  qed
qed

lemma TrimSpace_valid: "valid_utf8 s \<Longrightarrow> valid_utf8 (TrimSpace s)"
  by (simp add: TrimSpace_def TrimLeft_valid TrimRight_valid)

lemma Validate_valid_status:
  assumes "AdapterResult.Status r = StatusSuccess \<or> AdapterResult.Status r = StatusFailure"
  shows "fst (Validate r) = None"
    and "AdapterResult.Status (snd (Validate r)) = AdapterResult.Status r"
    and "AdapterResult.Reason (snd (Validate r)) =
          (let f = (if TrimSpace (AdapterResult.Reason r) = [] then DefaultReason else TrimSpace (AdapterResult.Reason r))
           in if int (length f) > maxReasonLength then truncateUTF8 f maxReasonLength else f)"
    and "AdapterResult.Message (snd (Validate r)) =
          (let f = (if TrimSpace (AdapterResult.Message r) = [] then DefaultMessage else TrimSpace (AdapterResult.Message r))
           in if int (length f) > maxMessageLength then truncateUTF8 f maxMessageLength else f)"
  using assms by (auto simp: Validate_def Let_def)

lemma normalized_nonempty:
  assumes "valid_utf8 f" "dflt \<noteq> []" "int (length dflt) \<le> m" "4 \<le> m"
  shows "(let g = (if TrimSpace f = [] then dflt else TrimSpace f)
          in if int (length g) > m then truncateUTF8 g m else g) \<noteq> []"
proof (cases "TrimSpace f = []")
  case True
  with assms show ?thesis by simp
next
  case False
  show ?thesis
  proof (cases "int (length (TrimSpace f)) > m")
    case False
    with \<open>TrimSpace f \<noteq> []\<close> show ?thesis by simp
  next
    case True
    have "truncateLoop (TrimSpace f) (nat m) \<noteq> []"
      using TrimSpace_valid[OF assms(1)] True assms(4)
      by (intro truncateLoop_nonempty) auto
    with True False show ?thesis by (simp add: truncateUTF8_def)
  qed
qed

text \<open>
  Claim C8. \<open>Validate\<close> returns an error exactly when the status is neither the token
  \<open>success\<close> nor the token \<open>failure\<close>, compared byte for byte; the error is the
  \<open>ResultError\<close> of the field \<open>status\<close> whose message says that it must be either
  'success' or 'failure'.
\<close>

theorem Validate_error_iff:
  "(fst (Validate r) \<noteq> None \<longleftrightarrow>
      AdapterResult.Status r \<noteq> ''success'' \<and> AdapterResult.Status r \<noteq> ''failure'')
   \<and> (\<forall>e. fst (Validate r) = Some e \<longrightarrow>
          e = ResultError ''status'' (''must be either 'success' or 'failure'' @ [CHR 0x27])
          \<and> Error e = ''status: must be either 'success' or 'failure'' @ [CHR 0x27])"
  by (auto simp: Validate_def Let_def StatusSuccess_def StatusFailure_def)

theorem Validate_error_iff_witness:
  "AdapterResult.Status sample_bad_status = ''Success''
   \<and> fst (Validate sample_bad_status) =
       Some (ResultError ''status'' (''must be either 'success' or 'failure'' @ [CHR 0x27]))
   \<and> fst (Validate (sample_bad_status\<lparr>AdapterResult.Status := []\<rparr>)) \<noteq> None
   \<and> fst (Validate sample_result) = None"
  using Validate_error_iff[of sample_bad_status]
    Validate_error_iff[of "sample_bad_status\<lparr>AdapterResult.Status := []\<rparr>"]
    Validate_error_iff[of sample_result]
  by (auto simp: sample_bad_status_def sample_result_def)

text \<open>
  Claim C9, as amended. For a record with a valid status, \<open>Validate\<close> succeeds; a reason
  (a message) that is empty or consists only of whitespace becomes \<open>NoReasonProvided\<close>
  (\<open>No message provided\<close>), and the two defaults differ. A reason or message that is
  well-formed UTF-8, as every string decoded from JSON is, is not empty afterwards.
\<close>

theorem Validate_defaults:
  assumes "AdapterResult.Status r = StatusSuccess \<or> AdapterResult.Status r = StatusFailure"
  shows "fst (Validate r) = None
       \<and> (whitespace_only (AdapterResult.Reason r) \<longrightarrow> AdapterResult.Reason (snd (Validate r)) = ''NoReasonProvided'')
       \<and> (whitespace_only (AdapterResult.Message r) \<longrightarrow> AdapterResult.Message (snd (Validate r)) = ''No message provided'')
       \<and> (valid_utf8 (AdapterResult.Reason r) \<longrightarrow> AdapterResult.Reason (snd (Validate r)) \<noteq> [])
       \<and> (valid_utf8 (AdapterResult.Message r) \<longrightarrow> AdapterResult.Message (snd (Validate r)) \<noteq> [])
       \<and> DefaultReason \<noteq> DefaultMessage"
proof -
  note V = Validate_valid_status[OF assms]
  have 1: "whitespace_only (AdapterResult.Reason r) \<longrightarrow> AdapterResult.Reason (snd (Validate r)) = ''NoReasonProvided''"
    by (simp add: V(3) TrimSpace_whitespace_only DefaultReason_def maxReasonLength_def)
  have 2: "whitespace_only (AdapterResult.Message r) \<longrightarrow> AdapterResult.Message (snd (Validate r)) = ''No message provided''"
    by (simp add: V(4) TrimSpace_whitespace_only DefaultMessage_def maxMessageLength_def)
  have 3: "valid_utf8 (AdapterResult.Reason r) \<longrightarrow> AdapterResult.Reason (snd (Validate r)) \<noteq> []"
  proof
    assume v: "valid_utf8 (AdapterResult.Reason r)"
    have "DefaultReason \<noteq> []" "int (length DefaultReason) \<le> maxReasonLength" "4 \<le> maxReasonLength"
      by (simp_all add: DefaultReason_def maxReasonLength_def)
    from normalized_nonempty[OF v this] show "AdapterResult.Reason (snd (Validate r)) \<noteq> []"
      unfolding V(3) .
  qed
  have 4: "valid_utf8 (AdapterResult.Message r) \<longrightarrow> AdapterResult.Message (snd (Validate r)) \<noteq> []"
  proof
    assume v: "valid_utf8 (AdapterResult.Message r)"
    have "DefaultMessage \<noteq> []" "int (length DefaultMessage) \<le> maxMessageLength" "4 \<le> maxMessageLength"
      by (simp_all add: DefaultMessage_def maxMessageLength_def)
    from normalized_nonempty[OF v this] show "AdapterResult.Message (snd (Validate r)) \<noteq> []"
      unfolding V(4) .
  qed
  have 5: "DefaultReason \<noteq> DefaultMessage"
    by (simp add: DefaultReason_def DefaultMessage_def)
  from V(1) 1 2 3 4 5 show ?thesis by blast
qed

theorem Validate_defaults_witness:
  "AdapterResult.Status sample_result = StatusSuccess
   \<and> whitespace_only (AdapterResult.Reason sample_result)
   \<and> whitespace_only (AdapterResult.Message sample_result)
   \<and> valid_utf8 (AdapterResult.Reason sample_result)
   \<and> valid_utf8 (AdapterResult.Message sample_result)
   \<and> fst (Validate sample_result) = None
   \<and> AdapterResult.Reason (snd (Validate sample_result)) = ''NoReasonProvided''
   \<and> AdapterResult.Message (snd (Validate sample_result)) = ''No message provided''"
proof -
  have s: "AdapterResult.Status sample_result = StatusSuccess"
    by (simp add: sample_result_def StatusSuccess_def)
  have wr: "whitespace_only (AdapterResult.Reason sample_result)"
    unfolding whitespace_only_def sample_result_def
    by (intro exI[of _ "[[CHR 0x20], [CHR 0x20]]"]) (simp add: space_encodings_def)
  have wm: "whitespace_only (AdapterResult.Message sample_result)"
    unfolding whitespace_only_def sample_result_def
    by (intro exI[of _ "[]"]) simp
  have vr: "valid_utf8 (AdapterResult.Reason sample_result)"
    unfolding sample_result_def by code_simp
  have vm: "valid_utf8 (AdapterResult.Message sample_result)"
    unfolding sample_result_def by code_simp
  from Validate_defaults[of sample_result] s wr wm vr vm show ?thesis by simp
qed

lemma truncateLoop_no_start:
  "(\<And>k. 0 < k \<Longrightarrow> k \<le> m \<Longrightarrow> \<not> RuneStart (s ! k)) \<Longrightarrow> truncateLoop s m = []"
  by (induction m) auto

lemma leading_space_none: "\<forall>e\<in>set space_encodings. hd e \<noteq> b \<Longrightarrow> leading_space (b # bs) = 0"
proof -
  assume a: "\<forall>e\<in>set space_encodings. hd e \<noteq> b"
  have "\<not> prefix e (b # bs)" if "e \<in> set space_encodings" for e
  proof -
    from that a space_ne have "hd e \<noteq> b" "e \<noteq> []" by blast+
    then show ?thesis by (cases e) simp_all
  qed
  then have "find (\<lambda>e. prefix e (b # bs)) space_encodings = None"
    by (simp add: find_None_iff)
  then show ?thesis by (simp add: leading_space_def)
qed

lemma trailing_space_none:
  assumes "s \<noteq> []" "of_char (last s) = (0xBF::nat)"
  shows "trailing_space s = 0"
proof -
  have "\<not> suffix e s" if e: "e \<in> set space_encodings" for e
  proof
    assume "suffix e s"
    then obtain pre where "s = pre @ e" by (auto simp: suffix_def)
    moreover from e space_ne have "e \<noteq> []" by auto
    ultimately have "last s = last e" by simp
    with assms(2) space_last e show False by auto
  qed
  then have "find (\<lambda>e. suffix e s) space_encodings = None"
    by (simp add: find_None_iff)
  then show ?thesis by (simp add: trailing_space_def)
qed

lemma TrimSpace_sample_continuation_bytes:
  "TrimSpace sample_continuation_bytes = sample_continuation_bytes"
proof -
  have "\<forall>e\<in>set space_encodings. hd e \<noteq> CHR ''A''"
    unfolding space_encodings_def by simp
  then have l: "leading_space sample_continuation_bytes = 0"
    unfolding sample_continuation_bytes_def by (rule leading_space_none)
  have t: "trailing_space sample_continuation_bytes = 0"
    by (rule trailing_space_none) (simp_all add: sample_continuation_bytes_def)
  have "TrimLeft sample_continuation_bytes = sample_continuation_bytes"
    by (subst TrimLeft.simps) (simp add: l)
  moreover have "TrimRight sample_continuation_bytes = sample_continuation_bytes"
    by (subst TrimRight.simps) (simp add: t)
  ultimately show ?thesis by (simp add: TrimSpace_def)
qed

lemma truncateUTF8_sample_continuation_bytes:
  "truncateUTF8 sample_continuation_bytes 128 = []"
proof -
  have "\<not> RuneStart (sample_continuation_bytes ! k)" if "0 < k" "k \<le> 128" for k
    using that by (simp add: sample_continuation_bytes_def nth_Cons' RuneStart_def)
  then have "truncateLoop sample_continuation_bytes 128 = []"
    by (rule truncateLoop_no_start)
  then show ?thesis by (simp add: truncateUTF8_def sample_continuation_bytes_def)
qed

text \<open>
  The claim as it was stated fails on a reason that is not well-formed UTF-8: after the
  first byte, the first 128 bytes of this one are continuation bytes, the loop of
  \<open>truncateUTF8\<close> finds no character start and falls through to its last line, and the
  validated record has an empty reason.
\<close>

theorem Validate_empty_reason_counterexample:
  "AdapterResult.Status sample_bad_reason = StatusSuccess
   \<and> fst (Validate sample_bad_reason) = None
   \<and> AdapterResult.Reason (snd (Validate sample_bad_reason)) = []"
proof -
  have s: "AdapterResult.Status sample_bad_reason = StatusSuccess"
    by (simp add: sample_bad_reason_def StatusSuccess_def)
  have r: "AdapterResult.Reason sample_bad_reason = sample_continuation_bytes"
    by (simp add: sample_bad_reason_def)
  have n: "sample_continuation_bytes \<noteq> []" "int (length sample_continuation_bytes) > maxReasonLength"
    by (simp_all add: sample_continuation_bytes_def maxReasonLength_def)
  from Validate_valid_status(1,3)[of sample_bad_reason] s
  show ?thesis
    by (simp add: r TrimSpace_sample_continuation_bytes n
        truncateUTF8_sample_continuation_bytes[unfolded maxReasonLength_def[symmetric]])
qed

text \<open>
  Claim C10. When \<open>Validate\<close> fails, the record is as it was: the status is checked
  before anything is trimmed, defaulted or truncated, and a record that \<open>Validate\<close> changes
  has a valid status.
\<close>

theorem Validate_failure_unchanged:
  "(fst (Validate r) \<noteq> None \<longrightarrow> snd (Validate r) = r)
   \<and> (snd (Validate r) \<noteq> r \<longrightarrow>
        fst (Validate r) = None
        \<and> (AdapterResult.Status r = StatusSuccess \<or> AdapterResult.Status r = StatusFailure))"
proof (cases "AdapterResult.Status r \<noteq> StatusSuccess \<and> AdapterResult.Status r \<noteq> StatusFailure")
  case True
  then have "snd (Validate r) = r" by (simp add: Validate_def)
  then show ?thesis by simp
next
  case False
  then have v: "AdapterResult.Status r = StatusSuccess \<or> AdapterResult.Status r = StatusFailure"
    by blast
  from Validate_valid_status(1)[OF v] v show ?thesis by simp
qed

theorem Validate_failure_unchanged_witness:
  "fst (Validate sample_bad_status) \<noteq> None
   \<and> snd (Validate sample_bad_status) = sample_bad_status
   \<and> AdapterResult.Reason (snd (Validate sample_bad_status)) = ''  r  ''
   \<and> snd (Validate sample_result) \<noteq> sample_result
   \<and> fst (Validate sample_result) = None"
proof -
  have "AdapterResult.Status sample_bad_status \<noteq> StatusSuccess
        \<and> AdapterResult.Status sample_bad_status \<noteq> StatusFailure"
    by (simp add: sample_bad_status_def StatusSuccess_def StatusFailure_def)
  then have e: "fst (Validate sample_bad_status) \<noteq> None"
    by (simp add: Validate_def)
  have s: "AdapterResult.Status sample_result = StatusSuccess"
    by (simp add: sample_result_def StatusSuccess_def)
  have m: "AdapterResult.Message sample_result = []"
    by (simp add: sample_result_def)
  have "whitespace_only []"
    unfolding whitespace_only_def by (intro exI[of _ "[]"]) simp
  then have "TrimSpace [] = []"
    by (rule TrimSpace_whitespace_only)
  with s m have "AdapterResult.Message (snd (Validate sample_result)) = DefaultMessage"
    by (simp add: Validate_valid_status(4) DefaultMessage_def maxMessageLength_def)
  with m have "AdapterResult.Message (snd (Validate sample_result)) \<noteq> AdapterResult.Message sample_result"
    by (simp add: DefaultMessage_def)
  then have c: "snd (Validate sample_result) \<noteq> sample_result"
    by auto
  have r: "AdapterResult.Reason sample_bad_status = ''  r  ''"
    by (simp add: sample_bad_status_def)
  from Validate_failure_unchanged[of sample_bad_status] Validate_failure_unchanged[of sample_result] e c r
  show ?thesis by simp
qed

section \<open>Properties of the client\<close>

lemma conditionLoop_find:
  "conditionLoop n conds i =
     (case find (\<lambda>e. batchv1_JobCondition.Type e = batchv1_JobCondition.Type n) conds of
        None \<Rightarrow> NotUpdated
      | Some existing \<Rightarrow>
          if batchv1_JobCondition.Status existing = batchv1_JobCondition.Status n
             \<and> batchv1_JobCondition.Reason existing = batchv1_JobCondition.Reason n
             \<and> batchv1_JobCondition.Message existing = batchv1_JobCondition.Message n
          then ReturnNil
          else UpdatedAt (i + length (takeWhile
                 (\<lambda>e. batchv1_JobCondition.Type e \<noteq> batchv1_JobCondition.Type n) conds)))"
  by (induction conds arbitrary: i) (auto split: option.splits)

lemma Get_events:
  "Get c w = (res, w1) \<Longrightarrow> events w1 = events w @ [GetRequest (namespace c) (jobName c)]"
  by (auto simp: Get_def split: prod.splits)

lemma RetryOnConflict_first:
  assumes "\<forall>e. fst (fn w) = Some e \<longrightarrow> \<not> errors_IsConflict e"
  shows "RetryOnConflict (Suc n) fn w = fn w"
  using assms by (cases "fn w") (auto split: option.splits)

lemma updateAttempt_loop:
  assumes "Get c w = (Inr job, w1)"
    and "JobCondition.Status condition = ''True'' \<or> JobCondition.Status condition = ''False''
         \<or> JobCondition.Status condition = ''Unknown''"
  shows "updateAttempt c condition w =
           (case conditionLoop (newJobCondition c condition (state w1)) (Conditions job) 0 of
               ReturnNil \<Rightarrow> (None, w1)
             | UpdatedAt i \<Rightarrow>
                 UpdateStatus c (job\<lparr>Conditions :=
                    (Conditions job)[i := newJobCondition c condition (state w1)]\<rparr>) w1
             | NotUpdated \<Rightarrow>
                 UpdateStatus c (job\<lparr>Conditions :=
                    Conditions job @ [newJobCondition c condition (state w1)]\<rparr>) w1)"
proof -
  have v: "\<not> (JobCondition.Status condition \<noteq> ''True'' \<and> JobCondition.Status condition \<noteq> ''False''
         \<and> JobCondition.Status condition \<noteq> ''Unknown'')"
    using assms(2) by blast
  show ?thesis
    unfolding updateAttempt_def Let_def if_not_P[OF v] assms(1) by simp
qed

text \<open>
  Claim C6. One attempt of \<open>UpdateJobStatus\<close> with a valid status, on the Job that \<open>Get\<close>
  returns, does what the specification says: when the Job's condition of the new
  condition's type has the same status, reason and message, the attempt returns \<open>nil\<close>
  after the read and sends no update, so \<open>UpdateJobStatus\<close> returns \<open>nil\<close> with the read as
  its only request and the stored condition keeps its transition time; otherwise the
  update it sends carries the Job's conditions with the new condition in the place of
  that condition, or appended when there is none. An attempt that does not fail with a
  conflict is not repeated.
\<close>

theorem UpdateJobStatus_publish:
  assumes "Get c w = (Inr job, w1)"
    and "JobCondition.Status condition = ''True'' \<or> JobCondition.Status condition = ''False''
         \<or> JobCondition.Status condition = ''Unknown''"
  shows "updateAttempt c condition w =
           (case spec_publish (newJobCondition c condition (state w1)) (Conditions job) of
              None \<Rightarrow> (None, w1)
            | Some conds \<Rightarrow> UpdateStatus c (job\<lparr>Conditions := conds\<rparr>) w1)
       \<and> (spec_publish (newJobCondition c condition (state w1)) (Conditions job) = None \<longrightarrow>
            Client_UpdateJobStatus c condition w = (None, w1)
            \<and> events w1 = events w @ [GetRequest (namespace c) (jobName c)])
       \<and> ((\<forall>e. fst (updateAttempt c condition w) = Some e \<longrightarrow> \<not> errors_IsConflict e) \<longrightarrow>
            Client_UpdateJobStatus c condition w = updateAttempt c condition w)"
proof -
  let ?n = "newJobCondition c condition (state w1)"
  have a: "updateAttempt c condition w =
           (case spec_publish ?n (Conditions job) of
              None \<Rightarrow> (None, w1)
            | Some conds \<Rightarrow> UpdateStatus c (job\<lparr>Conditions := conds\<rparr>) w1)"
    unfolding updateAttempt_loop[OF assms] conditionLoop_find spec_publish_def
    by (simp split: option.splits)
  have r: "Client_UpdateJobStatus c condition w = updateAttempt c condition w"
    if "\<forall>e. fst (updateAttempt c condition w) = Some e \<longrightarrow> \<not> errors_IsConflict e"
    unfolding Client_UpdateJobStatus_def DefaultBackoff_Steps_def numeral_eq_Suc
    using that by (rule RetryOnConflict_first)
  have b: "Client_UpdateJobStatus c condition w = (None, w1)"
    if "spec_publish ?n (Conditions job) = None"
  proof -
    from a that have "updateAttempt c condition w = (None, w1)" by simp
    with r show ?thesis by simp
  qed
  from a b r Get_events[OF assms(1)] show ?thesis by blast
qed

lemma sample_Get:
  "Get sample_client sample_cluster =
     (Inr sample_job, \<lparr>state = sample_job, events = [GetRequest ''ns'' ''job'']\<rparr>)"
  by (simp add: Get_def sample_client_def sample_cluster_def memory_clientset_def)

lemma sample_conditions:
  "Conditions sample_job = [condition_complete, condition_available]"
  "namespace sample_client = ''ns''" "jobName sample_client = ''job''"
  "events sample_cluster = []"
  by (simp_all add: sample_job_def sample_client_def sample_cluster_def)

theorem UpdateJobStatus_publish_witness:
  "Get sample_client sample_cluster =
     (Inr sample_job, \<lparr>state = sample_job, events = [GetRequest ''ns'' ''job'']\<rparr>)
   \<and> Client_UpdateJobStatus sample_client sample_condition sample_cluster =
       (None, \<lparr>state = sample_job, events = [GetRequest ''ns'' ''job'']\<rparr>)
   \<and> updateAttempt sample_client (sample_condition\<lparr>JobCondition.Message := ''other''\<rparr>) sample_cluster =
       UpdateStatus sample_client
         (sample_job\<lparr>Conditions :=
            [condition_complete, condition_available\<lparr>batchv1_JobCondition.Message := ''other'',
                                                      LastTransitionTime := 1000\<rparr>]\<rparr>)
         \<lparr>state = sample_job, events = [GetRequest ''ns'' ''job'']\<rparr>
   \<and> updateAttempt sample_client (sample_condition\<lparr>JobCondition.Type := ''Ready''\<rparr>) sample_cluster =
       UpdateStatus sample_client
         (sample_job\<lparr>Conditions :=
            [condition_complete, condition_available,
             condition_available\<lparr>batchv1_JobCondition.Type := ''Ready'',
                                 LastTransitionTime := 1000\<rparr>]\<rparr>)
         \<lparr>state = sample_job, events = [GetRequest ''ns'' ''job'']\<rparr>"
proof -
  have v: "JobCondition.Status (sample_condition\<lparr>JobCondition.Message := m\<rparr>) = ''True''
        \<or> JobCondition.Status (sample_condition\<lparr>JobCondition.Message := m\<rparr>) = ''False''
        \<or> JobCondition.Status (sample_condition\<lparr>JobCondition.Message := m\<rparr>) = ''Unknown''" for m
    by (simp add: sample_condition_def)
  have v': "JobCondition.Status (sample_condition\<lparr>JobCondition.Type := m\<rparr>) = ''True''
        \<or> JobCondition.Status (sample_condition\<lparr>JobCondition.Type := m\<rparr>) = ''False''
        \<or> JobCondition.Status (sample_condition\<lparr>JobCondition.Type := m\<rparr>) = ''Unknown''" for m
    by (simp add: sample_condition_def)
  have s0: "sample_condition\<lparr>JobCondition.Message := ''m''\<rparr> = sample_condition"
    by (simp add: sample_condition_def)
  have n: "newJobCondition sample_client cond sample_job =
        \<lparr>batchv1_JobCondition.Type = JobCondition.Type cond, Status = JobCondition.Status cond,
         LastProbeTime = 0,
         LastTransitionTime = (if JobCondition.LastTransitionTime cond = 0 then 1000
                               else JobCondition.LastTransitionTime cond),
         Reason = JobCondition.Reason cond, Message = JobCondition.Message cond\<rparr>" for cond
    by (simp add: newJobCondition_def sample_client_def memory_clientset_def)
  note t1 = UpdateJobStatus_publish[OF sample_Get v[of "''m''"], unfolded s0]
  note t2 = UpdateJobStatus_publish[OF sample_Get v[of "''other''"]]
  note t3 = UpdateJobStatus_publish[OF sample_Get v'[of "''Ready''"]]
  have 1: "Client_UpdateJobStatus sample_client sample_condition sample_cluster =
       (None, \<lparr>state = sample_job, events = [GetRequest ''ns'' ''job'']\<rparr>)"
    using t1[THEN conjunct2, THEN conjunct1]
    by (simp add: n spec_publish_def sample_conditions sample_condition_def
        condition_complete_def condition_available_def)
  have 2: "updateAttempt sample_client (sample_condition\<lparr>JobCondition.Message := ''other''\<rparr>) sample_cluster =
       UpdateStatus sample_client
         (sample_job\<lparr>Conditions :=
            [condition_complete, condition_available\<lparr>batchv1_JobCondition.Message := ''other'',
                                                      LastTransitionTime := 1000\<rparr>]\<rparr>)
         \<lparr>state = sample_job, events = [GetRequest ''ns'' ''job'']\<rparr>"
    using t2[THEN conjunct1]
    by (simp add: n spec_publish_def sample_conditions sample_condition_def
        condition_complete_def condition_available_def)
  have 3: "updateAttempt sample_client (sample_condition\<lparr>JobCondition.Type := ''Ready''\<rparr>) sample_cluster =
       UpdateStatus sample_client
         (sample_job\<lparr>Conditions :=
            [condition_complete, condition_available,
             condition_available\<lparr>batchv1_JobCondition.Type := ''Ready'',
                                 LastTransitionTime := 1000\<rparr>]\<rparr>)
         \<lparr>state = sample_job, events = [GetRequest ''ns'' ''job'']\<rparr>"
    using t3[THEN conjunct1]
    by (simp add: n spec_publish_def sample_conditions sample_condition_def
        condition_complete_def condition_available_def)
  from sample_Get 1 2 3 show ?thesis by blast
qed

section \<open>Properties of the reporter\<close>

lemma callUpdateJobStatus_eq:
  "callUpdateJobStatus r condition w =
     (fst (UpdateJobStatus (k8sClient r) condition (state w)),
      \<lparr>state = snd (UpdateJobStatus (k8sClient r) condition (state w)),
       events = events w @ [UpdateJobStatusCall condition]\<rparr>)"
  by (simp add: callUpdateJobStatus_def split: prod.splits)

lemma callGetAdapterContainerStatus_eq:
  "callGetAdapterContainerStatus r pod container w =
     (fst (GetAdapterContainerStatus (k8sClient r) pod container (state w)),
      \<lparr>state = snd (GetAdapterContainerStatus (k8sClient r) pod container (state w)),
       events = events w @ [GetAdapterContainerStatusCall pod container]\<rparr>)"
  by (simp add: callGetAdapterContainerStatus_def split: prod.splits)

lemma Validate_Status: "AdapterResult.Status (snd (Validate a)) = AdapterResult.Status a"
  by (simp add: Validate_def Let_def)

lemma Validate_None_Status:
  "fst (Validate a) = None \<Longrightarrow> AdapterResult.Status a = StatusSuccess \<or> AdapterResult.Status a = StatusFailure"
  by (auto simp: Validate_def split: if_splits)

lemma Parse_Inr_Status:
  assumes "Parse env data = Inr a"
  shows "AdapterResult.Status a = StatusSuccess \<or> AdapterResult.Status a = StatusFailure"
proof -
  from assms obtain x where x: "json_Unmarshal env data = Inr x"
    by (auto simp: Parse_def split: sum.splits)
  with assms have v: "fst (Validate x) = None" "a = snd (Validate x)"
    by (auto simp: Parse_def split: sum.splits prod.splits option.splits)
  from Validate_None_Status[OF v(1)] v(2) show ?thesis
    by (simp add: Validate_Status)
qed

lemma ParseFile_Inr_Status:
  "ParseFile env path = Inr a \<Longrightarrow> AdapterResult.Status a = StatusSuccess \<or> AdapterResult.Status a = StatusFailure"
  by (auto simp: ParseFile_def split: sum.splits if_splits dest: Parse_Inr_Status)

lemma tryParseResultFile_Inr_Status:
  "tryParseResultFile env r = Inr a \<Longrightarrow> AdapterResult.Status a = StatusSuccess \<or> AdapterResult.Status a = StatusFailure"
  by (auto simp: tryParseResultFile_def split: sum.splits dest: ParseFile_Inr_Status)

lemma UpdateFromResult_events:
  "events (snd (UpdateFromResult r a w)) =
     events w @ [UpdateJobStatusCall
       \<lparr>JobCondition.Type = conditionType r,
        Status = (if AdapterResult.Status a = ''success'' then ''True'' else ''False''),
        Reason = AdapterResult.Reason a,
        Message = AdapterResult.Message a,
        LastTransitionTime = 0\<rparr>]"
  by (simp add: UpdateFromResult_def callUpdateJobStatus_eq IsSuccess_def StatusSuccess_def
      ConditionStatusTrue_def ConditionStatusFalse_def Let_def split: option.splits)

lemma UpdateFromTerminatedContainer_events:
  "events (snd (UpdateFromTerminatedContainer r t w)) =
     events w @ [UpdateJobStatusCall
       \<lparr>JobCondition.Type = conditionType r,
        Status = ''False'',
        Reason = (if ContainerStateTerminated.Reason t = ''OOMKilled'' then ''AdapterOOMKilled''
                  else if ExitCode t \<noteq> 0 then ''AdapterExitedWithError''
                  else ''AdapterMissingResults''),
        Message = (if ContainerStateTerminated.Reason t = ''OOMKilled''
                   then ''Adapter container was killed due to out of memory (OOMKilled)''
                   else if ExitCode t \<noteq> 0
                   then ''Adapter container exited with code '' @ Itoa (sint (ExitCode t)) @ '': ''
                        @ ContainerStateTerminated.Reason t
                   else ''Adapter container exited successfully (code 0) but did not produce a valid result file: ''
                        @ ContainerStateTerminated.Reason t),
        LastTransitionTime = 0\<rparr>]"
  by (simp add: UpdateFromTerminatedContainer_def callUpdateJobStatus_eq Let_def
      ContainerReasonOOMKilled_def ReasonAdapterOOMKilled_def ReasonAdapterExitedWithError_def
      ReasonAdapterMissingResults_def ConditionStatusFalse_def split: option.splits)

lemma UpdateFromTerminatedContainer_error: "fst (UpdateFromTerminatedContainer r t w) \<noteq> None"
  by (simp add: UpdateFromTerminatedContainer_def callUpdateJobStatus_eq Let_def
      split: option.splits prod.splits)

lemma digit_chars:
  "char_of (48::nat) = CHR ''0''" "char_of (49::nat) = CHR ''1''" "char_of (50::nat) = CHR ''2''"
  "char_of (51::nat) = CHR ''3''" "char_of (52::nat) = CHR ''4''" "char_of (53::nat) = CHR ''5''"
  "char_of (54::nat) = CHR ''6''" "char_of (55::nat) = CHR ''7''" "char_of (56::nat) = CHR ''8''"
  "char_of (57::nat) = CHR ''9''"
  using char_of_char[of "CHR ''0''", where ?'a = nat] char_of_char[of "CHR ''1''", where ?'a = nat]
    char_of_char[of "CHR ''2''", where ?'a = nat] char_of_char[of "CHR ''3''", where ?'a = nat]
    char_of_char[of "CHR ''4''", where ?'a = nat] char_of_char[of "CHR ''5''", where ?'a = nat]
    char_of_char[of "CHR ''6''", where ?'a = nat] char_of_char[of "CHR ''7''", where ?'a = nat]
    char_of_char[of "CHR ''8''", where ?'a = nat] char_of_char[of "CHR ''9''", where ?'a = nat]
  by simp_all

lemma digits_samples: "digits 300 = ''300''" "digits 0 = ''0''" "digits 5 = ''5''"
  by (simp_all add: digits.simps digit_chars)

lemma fmtFracLoop_one: "fmtFracLoop 1 v p b = fmtFracLoop 0 (v div 10) (p \<or> v mod 10 \<noteq> 0) (if p \<or> v mod 10 \<noteq> 0 then char_of (48 + v mod 10) # b else b)"
  using fmtFracLoop.simps(2)[of 0 v p b] by (simp add: Let_def)

lemma fmtFracLoop_numeral: "fmtFracLoop (numeral k) v p b = fmtFracLoop (pred_numeral k) (v div 10) (p \<or> v mod 10 \<noteq> 0) (if p \<or> v mod 10 \<noteq> 0 then char_of (48 + v mod 10) # b else b)"
  using fmtFracLoop.simps(2)[of "pred_numeral k" v p b] by (simp add: numeral_eq_Suc[of k] Let_def)

lemma fmtFrac_five_minutes: "fmtFrac 300000000000 9 = ([], 300)"
  by (simp add: fmtFrac_def fmtFracLoop_numeral fmtFracLoop_one)

lemma Duration_String_five_minutes: "Duration_String 300000000000 = ''5m0s''"
  by (simp add: Duration_String_def fmtFrac_five_minutes digits.simps digit_chars)

lemma Itoa_samples: "Itoa 137 = ''137''" "Itoa 1 = ''1''" "Itoa (sint (-1 :: 32 word)) = ''-1''"
  by (simp_all add: Itoa_def digits.simps digit_chars)


lemma sample_result_valid:
  "Validate \<lparr>AdapterResult.Status = ''success'', Reason = ''AllChecksPassed'',
             Message = ''All validations passed'', Details = []\<rparr> = (None, \<lparr>AdapterResult.Status = ''success'', Reason = ''AllChecksPassed'',
             Message = ''All validations passed'', Details = []\<rparr>)"
  by code_simp

lemma length_sample_json: "length sample_json = 82"
  by (simp add: sample_json_def)

lemma tryParseResultFile_with_file: "tryParseResultFile (env_with_file sample_json) (sample_reporter cs ue) = Inr
   \<lparr>AdapterResult.Status = ''success'', Reason = ''AllChecksPassed'',
             Message = ''All validations passed'', Details = []\<rparr>"
  by (simp add: tryParseResultFile_def env_with_file_def sample_reporter_def ParseFile_def Parse_def
      maxResultFileSize_def sample_unmarshal_def sample_result_valid length_sample_json)

lemma tryParseResultFile_without_file: "tryParseResultFile env_without_file (sample_reporter cs ue) =
    Inl (External NotExist ''stat /results/adapter-result.json: no such file or directory'')"
  by (simp add: tryParseResultFile_def env_without_file_def sample_reporter_def sample_path_def)

lemma UpdateFromResult_result:
  "fst (UpdateFromResult r a w) =
     (case fst (UpdateJobStatus (k8sClient r)
                 \<lparr>JobCondition.Type = conditionType r,
                  Status = (if AdapterResult.Status a = ''success'' then ''True'' else ''False''),
                  Reason = AdapterResult.Reason a,
                  Message = AdapterResult.Message a,
                  LastTransitionTime = 0\<rparr> (state w)) of
        None \<Rightarrow> None
      | Some e \<Rightarrow> Some (WrapError (''failed to update job status: pod='' @ podName r
                          @ '' condition='' @ conditionType r @ '': '') e))"
  by (simp add: UpdateFromResult_def callUpdateJobStatus_eq IsSuccess_def StatusSuccess_def
      ConditionStatusTrue_def ConditionStatusFalse_def Let_def split: option.splits)

lemma UpdateFromError_events:
  "events (snd (UpdateFromError r err w)) =
     events w @ [UpdateJobStatusCall
       \<lparr>JobCondition.Type = conditionType r, Status = ''False'', Reason = ''InvalidResultFormat'',
        Message = ''Failed to parse adapter result: '' @ fmt_v err, LastTransitionTime = 0\<rparr>]"
  by (simp add: UpdateFromError_def callUpdateJobStatus_eq Let_def ConditionStatusFalse_def
      ReasonInvalidResultFormat_def split: option.splits)

lemma UpdateFromError_result:
  "fst (UpdateFromError r err w) =
     (case fst (UpdateJobStatus (k8sClient r)
                 \<lparr>JobCondition.Type = conditionType r, Status = ''False'',
                  Reason = ''InvalidResultFormat'',
                  Message = ''Failed to parse adapter result: '' @ fmt_v err,
                  LastTransitionTime = 0\<rparr> (state w)) of
        None \<Rightarrow> err
      | Some e \<Rightarrow> Some (WrapError ''failed to update job status: '' e))"
  by (simp add: UpdateFromError_def callUpdateJobStatus_eq Let_def ConditionStatusFalse_def
      ReasonInvalidResultFormat_def split: option.splits)

lemma UpdateFromTimeout_eq:
  assumes "callGetAdapterContainerStatus r (podName r) (adapterContainerName r) w
           = ((containerStatus, err), w1)"
  shows "UpdateFromTimeout r w =
     (if err = None \<and> (\<exists>cs t. containerStatus = Some cs \<and> Terminated (State cs) = Some t)
      then UpdateFromTerminatedContainer r (the (Terminated (State (the containerStatus)))) w1
      else (case callUpdateJobStatus r
                   \<lparr>JobCondition.Type = conditionType r, Status = ''False'',
                    Reason = ''AdapterTimeout'',
                    Message = ''Adapter did not produce results within ''
                              @ Duration_String (maxWaitTime r),
                    LastTransitionTime = 0\<rparr> w1 of
              (Some e, w') \<Rightarrow> (Some (WrapError ''failed to update job status: '' e), w')
            | (None, w') \<Rightarrow> (Some (ErrorString ''timeout waiting for adapter results''), w')))"
  unfolding UpdateFromTimeout_def assms
  by (auto simp: Let_def ConditionStatusFalse_def ReasonAdapterTimeout_def split: option.splits)

text \<open>
  Claim C1. When the result file at the configured path parses into a valid record,
  \<open>HandleTermination\<close> does what \<open>UpdateFromResult\<close> does with that record, whatever the
  exit code and the termination reason: the one call it makes publishes the record's own
  reason and message with the status \<open>True\<close> for the status \<open>success\<close> and \<open>False\<close> for
  \<open>failure\<close>, the only two statuses a parsed record has.
\<close>

theorem HandleTermination_valid_artifact:
  assumes "tryParseResultFile env r = Inr a"
  shows "HandleTermination env r terminated w = UpdateFromResult r a w
       \<and> events (snd (HandleTermination env r terminated w)) =
           events w @ [UpdateJobStatusCall
             \<lparr>JobCondition.Type = conditionType r,
              Status = (if AdapterResult.Status a = ''success'' then ''True'' else ''False''),
              Reason = AdapterResult.Reason a,
              Message = AdapterResult.Message a,
              LastTransitionTime = 0\<rparr>]
       \<and> (AdapterResult.Status a = ''success'' \<or> AdapterResult.Status a = ''failure'')"
proof -
  have h: "HandleTermination env r terminated w = UpdateFromResult r a w"
    using assms by (simp add: HandleTermination_def)
  from tryParseResultFile_Inr_Status[OF assms]
  have s: "AdapterResult.Status a = ''success'' \<or> AdapterResult.Status a = ''failure''"
    by (simp add: StatusSuccess_def StatusFailure_def)
  from h s show ?thesis by (simp only: UpdateFromResult_events)
qed

theorem HandleTermination_valid_artifact_witness:
  "tryParseResultFile (env_with_file sample_json) (sample_reporter None None) =
     Inr \<lparr>AdapterResult.Status = ''success'', Reason = ''AllChecksPassed'',
          Message = ''All validations passed'', Details = []\<rparr>
   \<and> events (snd (HandleTermination (env_with_file sample_json) (sample_reporter None None)
                    (terminated_with ''Error'' 1) empty_world)) =
       [UpdateJobStatusCall
          \<lparr>JobCondition.Type = ''Available'', Status = ''True'', Reason = ''AllChecksPassed'',
           Message = ''All validations passed'', LastTransitionTime = 0\<rparr>]
   \<and> events (snd (HandleTermination (env_with_file sample_json) (sample_reporter None None)
                    (terminated_with ''OOMKilled'' 137) empty_world)) =
       [UpdateJobStatusCall
          \<lparr>JobCondition.Type = ''Available'', Status = ''True'', Reason = ''AllChecksPassed'',
           Message = ''All validations passed'', LastTransitionTime = 0\<rparr>]"
proof -
  have c: "conditionType (sample_reporter None None) = ''Available''" "events empty_world = []"
    by (simp_all add: sample_reporter_def empty_world_def)
  note a = HandleTermination_valid_artifact[OF tryParseResultFile_with_file,
             of None None "terminated_with ''Error'' 1" empty_world]
  note b = HandleTermination_valid_artifact[OF tryParseResultFile_with_file,
             of None None "terminated_with ''OOMKilled'' 137" empty_world]
  from a[THEN conjunct2, THEN conjunct1] b[THEN conjunct2, THEN conjunct1]
  show ?thesis
    by (simp add: tryParseResultFile_with_file c)
qed

text \<open>
  Claim C2. \<open>UpdateFromTerminatedContainer\<close> publishes one condition, with the status
  \<open>False\<close>: the reason is \<open>AdapterOOMKilled\<close> with a fixed message when the termination
  reason is \<open>OOMKilled\<close>; otherwise \<open>AdapterExitedWithError\<close> with a message made of the exit
  code and the termination reason when the exit code is not zero; otherwise
  \<open>AdapterMissingResults\<close>. This is what \<open>HandleTermination\<close> does whenever the result file
  gives no valid record.
\<close>

theorem UpdateFromTerminatedContainer_classification:
  "events (snd (UpdateFromTerminatedContainer r t w)) =
     events w @ [UpdateJobStatusCall
       \<lparr>JobCondition.Type = conditionType r,
        Status = ''False'',
        Reason = (if ContainerStateTerminated.Reason t = ''OOMKilled'' then ''AdapterOOMKilled''
                  else if ExitCode t \<noteq> 0 then ''AdapterExitedWithError''
                  else ''AdapterMissingResults''),
        Message = (if ContainerStateTerminated.Reason t = ''OOMKilled''
                   then ''Adapter container was killed due to out of memory (OOMKilled)''
                   else if ExitCode t \<noteq> 0
                   then ''Adapter container exited with code '' @ Itoa (sint (ExitCode t)) @ '': ''
                        @ ContainerStateTerminated.Reason t
                   else ''Adapter container exited successfully (code 0) but did not produce a valid result file: ''
                        @ ContainerStateTerminated.Reason t),
        LastTransitionTime = 0\<rparr>]
   \<and> (\<forall>err. tryParseResultFile env r = Inl err \<longrightarrow>
          HandleTermination env r t w = UpdateFromTerminatedContainer r t w)"
  by (simp add: UpdateFromTerminatedContainer_events HandleTermination_def)

theorem UpdateFromTerminatedContainer_classification_witness:
  "tryParseResultFile env_without_file (sample_reporter None None) =
     Inl (External NotExist ''stat /results/adapter-result.json: no such file or directory'')
   \<and> events (snd (HandleTermination env_without_file (sample_reporter None None)
                    (terminated_with ''OOMKilled'' 137) empty_world)) =
       [UpdateJobStatusCall
          \<lparr>JobCondition.Type = ''Available'', Status = ''False'', Reason = ''AdapterOOMKilled'',
           Message = ''Adapter container was killed due to out of memory (OOMKilled)'',
           LastTransitionTime = 0\<rparr>]
   \<and> events (snd (HandleTermination env_without_file (sample_reporter None None)
                    (terminated_with ''Error'' 1) empty_world)) =
       [UpdateJobStatusCall
          \<lparr>JobCondition.Type = ''Available'', Status = ''False'', Reason = ''AdapterExitedWithError'',
           Message = ''Adapter container exited with code 1: Error'',
           LastTransitionTime = 0\<rparr>]
   \<and> events (snd (HandleTermination env_without_file (sample_reporter None None)
                    (terminated_with ''Completed'' 0) empty_world)) =
       [UpdateJobStatusCall
          \<lparr>JobCondition.Type = ''Available'', Status = ''False'', Reason = ''AdapterMissingResults'',
           Message = ''Adapter container exited successfully (code 0) but did not produce a valid result file: Completed'',
           LastTransitionTime = 0\<rparr>]"
proof -
  have c: "conditionType (sample_reporter None None) = ''Available''" "events empty_world = []"
    by (simp_all add: sample_reporter_def empty_world_def)
  note n = tryParseResultFile_without_file[of None None]
  note a = UpdateFromTerminatedContainer_classification[of "sample_reporter None None"
          "terminated_with ''OOMKilled'' 137" empty_world env_without_file]
  note b = UpdateFromTerminatedContainer_classification[of "sample_reporter None None"
          "terminated_with ''Error'' 1" empty_world env_without_file]
  note d = UpdateFromTerminatedContainer_classification[of "sample_reporter None None"
          "terminated_with ''Completed'' 0" empty_world env_without_file]
  have 1: "events (snd (HandleTermination env_without_file (sample_reporter None None)
                    (terminated_with ''OOMKilled'' 137) empty_world)) =
       [UpdateJobStatusCall
          \<lparr>JobCondition.Type = ''Available'', Status = ''False'', Reason = ''AdapterOOMKilled'',
           Message = ''Adapter container was killed due to out of memory (OOMKilled)'',
           LastTransitionTime = 0\<rparr>]"
    using a[THEN conjunct2, rule_format, OF n] a[THEN conjunct1]
    by (simp add: c terminated_with_def)
  have 2: "events (snd (HandleTermination env_without_file (sample_reporter None None)
                    (terminated_with ''Error'' 1) empty_world)) =
       [UpdateJobStatusCall
          \<lparr>JobCondition.Type = ''Available'', Status = ''False'', Reason = ''AdapterExitedWithError'',
           Message = ''Adapter container exited with code 1: Error'',
           LastTransitionTime = 0\<rparr>]"
    using b[THEN conjunct2, rule_format, OF n] b[THEN conjunct1]
    by (simp add: c terminated_with_def Itoa_samples)
  have 3: "events (snd (HandleTermination env_without_file (sample_reporter None None)
                    (terminated_with ''Completed'' 0) empty_world)) =
       [UpdateJobStatusCall
          \<lparr>JobCondition.Type = ''Available'', Status = ''False'', Reason = ''AdapterMissingResults'',
           Message = ''Adapter container exited successfully (code 0) but did not produce a valid result file: Completed'',
           LastTransitionTime = 0\<rparr>]"
    using d[THEN conjunct2, rule_format, OF n] d[THEN conjunct1]
    by (simp add: c terminated_with_def)
  from n 1 2 3 show ?thesis by simp
qed

lemma sample_get_terminated:
  "callGetAdapterContainerStatus (sample_reporter (Some (status_terminated reason code)) ue)
     (podName (sample_reporter (Some (status_terminated reason code)) ue))
     (adapterContainerName (sample_reporter (Some (status_terminated reason code)) ue)) empty_world
   = ((Some (status_terminated reason code), None),
      \<lparr>state = (), events = [GetAdapterContainerStatusCall ''test-pod'' ''adapter'']\<rparr>)"
  by (simp add: callGetAdapterContainerStatus_eq sample_reporter_def mock_client_def empty_world_def)

lemma sample_timeout_terminated:
  "UpdateFromTimeout (sample_reporter (Some (status_terminated reason code)) ue) empty_world =
     UpdateFromTerminatedContainer (sample_reporter (Some (status_terminated reason code)) ue)
       (terminated_with reason code)
       \<lparr>state = (), events = [GetAdapterContainerStatusCall ''test-pod'' ''adapter'']\<rparr>"
proof -
  have "Terminated (State (status_terminated reason code)) = Some (terminated_with reason code)"
    by (simp add: status_terminated_def)
  then show ?thesis
    by (simp add: UpdateFromTimeout_eq[OF sample_get_terminated])
qed

lemma UpdateFromTerminatedContainer_published:
  "\<exists>condition. events (snd (UpdateFromTerminatedContainer r t w)) = events w @ [UpdateJobStatusCall condition]
     \<and> fst (UpdateFromTerminatedContainer r t w) =
         (case fst (UpdateJobStatus (k8sClient r) condition (state w)) of
            None \<Rightarrow> Some (ErrorString (''adapter container terminated: '' @ JobCondition.Message condition))
          | Some e \<Rightarrow> Some (WrapError ''failed to update job status: '' e))"
  by (auto simp: UpdateFromTerminatedContainer_def callUpdateJobStatus_eq Let_def
      split: option.splits)

lemma UpdateFromTimeout_error: "fst (UpdateFromTimeout r w) \<noteq> None"
proof -
  obtain cs err w1 where
    g: "callGetAdapterContainerStatus r (podName r) (adapterContainerName r) w = ((cs, err), w1)"
    by (metis prod.exhaust)
  show ?thesis
  proof (cases "err = None \<and> (\<exists>c t. cs = Some c \<and> Terminated (State c) = Some t)")
    case True
    show ?thesis
      unfolding UpdateFromTimeout_eq[OF g] if_P[OF True]
      by (rule UpdateFromTerminatedContainer_error)
  next
    case False
    show ?thesis
      unfolding UpdateFromTimeout_eq[OF g] if_not_P[OF False]
      by (simp add: callUpdateJobStatus_eq split: option.splits)
  qed
qed

lemma mock_publish:
  "fst (UpdateJobStatus (k8sClient (sample_reporter cs ue)) condition s) = ue"
  "state empty_world = ()" "events empty_world = []"
  "conditionType (sample_reporter cs ue) = ''Available''"
  "podName (sample_reporter cs ue) = ''test-pod''"
  by (simp_all add: sample_reporter_def mock_client_def empty_world_def)

lemma HandleTermination_with_file:
  "events (snd (HandleTermination (env_with_file sample_json) (sample_reporter cs None) t empty_world)) =
     [UpdateJobStatusCall
        \<lparr>JobCondition.Type = ''Available'', Status = ''True'', Reason = ''AllChecksPassed'',
         Message = ''All validations passed'', LastTransitionTime = 0\<rparr>]"
  "fst (HandleTermination (env_with_file sample_json) (sample_reporter cs None) t empty_world) = None"
  by (simp_all add: HandleTermination_def tryParseResultFile_with_file UpdateFromResult_events
      UpdateFromResult_result mock_publish)

text \<open>
  Claim C3. At the deadline \<open>UpdateFromTimeout\<close> is to ask for the container status once
  and to hand a terminated container to the Termination Decision Tree, which reads the
  result file first and lets a valid record win. The code hands the container to
  \<open>UpdateFromTerminatedContainer\<close> and never reads the file. With a valid result file in
  place, \<open>HandleTermination\<close> publishes the record of the file and returns \<open>nil\<close>, while
  \<open>UpdateFromTimeout\<close>, asked about the same container, publishes
  \<open>AdapterExitedWithError\<close> for the exit code 1 and, for the exit code 0,
  \<open>AdapterMissingResults\<close> with a message that says that no valid result file was
  produced, and returns an error.
\<close>

theorem UpdateFromTimeout_ignores_artifact:
  "tryParseResultFile (env_with_file sample_json)
       (sample_reporter (Some (status_terminated ''Error'' 1)) None) =
     Inr \<lparr>AdapterResult.Status = ''success'', Reason = ''AllChecksPassed'',
          Message = ''All validations passed'', Details = []\<rparr>
   \<and> events (snd (HandleTermination (env_with_file sample_json)
                    (sample_reporter (Some (status_terminated ''Error'' 1)) None)
                    (terminated_with ''Error'' 1) empty_world)) =
       [UpdateJobStatusCall
          \<lparr>JobCondition.Type = ''Available'', Status = ''True'', Reason = ''AllChecksPassed'',
           Message = ''All validations passed'', LastTransitionTime = 0\<rparr>]
   \<and> fst (HandleTermination (env_with_file sample_json)
            (sample_reporter (Some (status_terminated ''Error'' 1)) None)
            (terminated_with ''Error'' 1) empty_world) = None
   \<and> events (snd (UpdateFromTimeout (sample_reporter (Some (status_terminated ''Error'' 1)) None)
                    empty_world)) =
       [GetAdapterContainerStatusCall ''test-pod'' ''adapter'',
        UpdateJobStatusCall
          \<lparr>JobCondition.Type = ''Available'', Status = ''False'', Reason = ''AdapterExitedWithError'',
           Message = ''Adapter container exited with code 1: Error'', LastTransitionTime = 0\<rparr>]
   \<and> fst (UpdateFromTimeout (sample_reporter (Some (status_terminated ''Error'' 1)) None)
            empty_world) \<noteq> None
   \<and> tryParseResultFile (env_with_file sample_json)
       (sample_reporter (Some (status_terminated ''Completed'' 0)) None) =
     Inr \<lparr>AdapterResult.Status = ''success'', Reason = ''AllChecksPassed'',
          Message = ''All validations passed'', Details = []\<rparr>
   \<and> events (snd (UpdateFromTimeout (sample_reporter (Some (status_terminated ''Completed'' 0)) None)
                    empty_world)) =
       [GetAdapterContainerStatusCall ''test-pod'' ''adapter'',
        UpdateJobStatusCall
          \<lparr>JobCondition.Type = ''Available'', Status = ''False'', Reason = ''AdapterMissingResults'',
           Message = ''Adapter container exited successfully (code 0) but did not produce a valid result file: Completed'',
           LastTransitionTime = 0\<rparr>]"
proof -
  let ?r1 = "sample_reporter (Some (status_terminated ''Error'' 1)) None"
  let ?r0 = "sample_reporter (Some (status_terminated ''Completed'' 0)) None"
  have 1: "events (snd (UpdateFromTimeout ?r1 empty_world)) =
       [GetAdapterContainerStatusCall ''test-pod'' ''adapter'',
        UpdateJobStatusCall
          \<lparr>JobCondition.Type = ''Available'', Status = ''False'', Reason = ''AdapterExitedWithError'',
           Message = ''Adapter container exited with code 1: Error'', LastTransitionTime = 0\<rparr>]"
    by (simp add: sample_timeout_terminated UpdateFromTerminatedContainer_events mock_publish
        terminated_with_def Itoa_samples)
  have 0: "events (snd (UpdateFromTimeout ?r0 empty_world)) =
       [GetAdapterContainerStatusCall ''test-pod'' ''adapter'',
        UpdateJobStatusCall
          \<lparr>JobCondition.Type = ''Available'', Status = ''False'', Reason = ''AdapterMissingResults'',
           Message = ''Adapter container exited successfully (code 0) but did not produce a valid result file: Completed'',
           LastTransitionTime = 0\<rparr>]"
    by (simp add: sample_timeout_terminated UpdateFromTerminatedContainer_events mock_publish
        terminated_with_def)
  from 1 0 UpdateFromTimeout_error[of ?r1 empty_world]
    HandleTermination_with_file[of "Some (status_terminated ''Error'' 1)" "terminated_with ''Error'' 1"]
  show ?thesis by (simp add: tryParseResultFile_with_file)
qed

text \<open>
  Claim C4, as amended. A run resolved by a parsed record (a result signal, or a
  termination with a valid result file) publishes the condition of the record and returns
  \<open>nil\<close> exactly when that call returns \<open>nil\<close>, whatever status the record carries; when
  the call fails, the run returns that error wrapped. A run resolved by an error signal or
  by a termination without a valid result file returns an error in every case, also when
  its condition was published; so does a run resolved by the deadline when the result
  file gives no valid record or the status query reports no terminated container.
\<close>

theorem resolve_completion_status:
  "(\<forall>a. sig = ResultSignal a
         \<or> ((\<exists>t. sig = TerminatedSignal t) \<and> tryParseResultFile env r = Inr a) \<longrightarrow>
        events (snd (resolve env r sig w)) = events w @ [UpdateJobStatusCall
              \<lparr>JobCondition.Type = conditionType r,
               Status = (if AdapterResult.Status a = ''success'' then ''True'' else ''False''),
               Reason = AdapterResult.Reason a,
               Message = AdapterResult.Message a,
               LastTransitionTime = 0\<rparr>]
      \<and> (fst (resolve env r sig w) = None
           \<longleftrightarrow> fst (UpdateJobStatus (k8sClient r)
              \<lparr>JobCondition.Type = conditionType r,
               Status = (if AdapterResult.Status a = ''success'' then ''True'' else ''False''),
               Reason = AdapterResult.Reason a,
               Message = AdapterResult.Message a,
               LastTransitionTime = 0\<rparr> (state w)) = None)
      \<and> (\<forall>e. fst (UpdateJobStatus (k8sClient r)
              \<lparr>JobCondition.Type = conditionType r,
               Status = (if AdapterResult.Status a = ''success'' then ''True'' else ''False''),
               Reason = AdapterResult.Reason a,
               Message = AdapterResult.Message a,
               LastTransitionTime = 0\<rparr> (state w)) = Some e \<longrightarrow>
             fst (resolve env r sig w) = Some (WrapError (''failed to update job status: pod='' @ podName r @ '' condition=''
                          @ conditionType r @ '': '') e)))
   \<and> ((\<exists>e. sig = ErrorSignal e)
        \<or> ((\<exists>t. sig = TerminatedSignal t) \<and> (\<exists>e. tryParseResultFile env r = Inl e))
        \<or> (sig = DeadlineSignal
            \<and> ((\<exists>e. tryParseResultFile env r = Inl e)
                \<or> \<not> (\<exists>cs t. fst (GetAdapterContainerStatus (k8sClient r) (podName r)
                                    (adapterContainerName r) (state w)) = (Some cs, None)
                             \<and> Terminated (State cs) = Some t))) \<longrightarrow>
       fst (resolve env r sig w) \<noteq> None)"
proof -
  have 1: "events (snd (resolve env r sig w)) = events w @ [UpdateJobStatusCall
              \<lparr>JobCondition.Type = conditionType r,
               Status = (if AdapterResult.Status a = ''success'' then ''True'' else ''False''),
               Reason = AdapterResult.Reason a,
               Message = AdapterResult.Message a,
               LastTransitionTime = 0\<rparr>]
      \<and> (fst (resolve env r sig w) = None
           \<longleftrightarrow> fst (UpdateJobStatus (k8sClient r)
              \<lparr>JobCondition.Type = conditionType r,
               Status = (if AdapterResult.Status a = ''success'' then ''True'' else ''False''),
               Reason = AdapterResult.Reason a,
               Message = AdapterResult.Message a,
               LastTransitionTime = 0\<rparr> (state w)) = None)
      \<and> (\<forall>e. fst (UpdateJobStatus (k8sClient r)
              \<lparr>JobCondition.Type = conditionType r,
               Status = (if AdapterResult.Status a = ''success'' then ''True'' else ''False''),
               Reason = AdapterResult.Reason a,
               Message = AdapterResult.Message a,
               LastTransitionTime = 0\<rparr> (state w)) = Some e \<longrightarrow>
             fst (resolve env r sig w) = Some (WrapError (''failed to update job status: pod='' @ podName r @ '' condition=''
                          @ conditionType r @ '': '') e))"
    if "sig = ResultSignal a \<or> ((\<exists>t. sig = TerminatedSignal t) \<and> tryParseResultFile env r = Inr a)" for a
  proof -
    from that have "resolve env r sig w = UpdateFromResult r a w"
      by (auto simp: resolve_def HandleTermination_def)
    then show ?thesis
      by (simp add: UpdateFromResult_events UpdateFromResult_result split: option.splits)
  qed
  have 2: "fst (resolve env r sig w) \<noteq> None"
    if "(\<exists>e. sig = ErrorSignal e)
        \<or> ((\<exists>t. sig = TerminatedSignal t) \<and> (\<exists>e. tryParseResultFile env r = Inl e))
        \<or> (sig = DeadlineSignal
            \<and> ((\<exists>e. tryParseResultFile env r = Inl e)
                \<or> \<not> (\<exists>cs t. fst (GetAdapterContainerStatus (k8sClient r) (podName r)
                                    (adapterContainerName r) (state w)) = (Some cs, None)
                             \<and> Terminated (State cs) = Some t)))"
  proof -
    have a: "fst (resolve env r (ErrorSignal e) w) \<noteq> None" for e
      by (simp add: resolve_def UpdateFromError_result split: option.splits)
    have b: "fst (resolve env r (TerminatedSignal t) w) \<noteq> None"
      if "tryParseResultFile env r = Inl e" for t e
      using that UpdateFromTerminatedContainer_error[of r t w]
      by (simp add: resolve_def HandleTermination_def)
    have c: "fst (resolve env r DeadlineSignal w) \<noteq> None"
      using UpdateFromTimeout_error[of r w] by (simp add: resolve_def)
    from that a b c show ?thesis by blast
  qed
  from 1 2 show ?thesis by blast
qed

theorem resolve_completion_status_witness:
  "fst (resolve env_without_file (sample_reporter None None)
          (ResultSignal \<lparr>AdapterResult.Status = ''failure'', Reason = ''ValidationFailed'',
                          Message = ''Validation checks failed'', Details = []\<rparr>) empty_world) = None
   \<and> events (snd (resolve env_without_file (sample_reporter None None)
          (ResultSignal \<lparr>AdapterResult.Status = ''failure'', Reason = ''ValidationFailed'',
                          Message = ''Validation checks failed'', Details = []\<rparr>) empty_world)) =
       [UpdateJobStatusCall
          \<lparr>JobCondition.Type = ''Available'', Status = ''False'', Reason = ''ValidationFailed'',
           Message = ''Validation checks failed'', LastTransitionTime = 0\<rparr>]
   \<and> fst (resolve env_without_file (sample_reporter None (Some (External Conflict ''conflict'')))
          (ResultSignal \<lparr>AdapterResult.Status = ''failure'', Reason = ''ValidationFailed'',
                          Message = ''Validation checks failed'', Details = []\<rparr>) empty_world)
        = Some (WrapError ''failed to update job status: pod=test-pod condition=Available: ''
                  (External Conflict ''conflict''))
   \<and> fst (resolve (env_with_file sample_json) (sample_reporter None None)
            (TerminatedSignal (terminated_with ''Error'' 1)) empty_world) = None
   \<and> fst (resolve env_without_file (sample_reporter (Some (status_terminated ''Error'' 1)) None)
            DeadlineSignal empty_world) \<noteq> None
   \<and> fst (resolve (env_with_file sample_json) (sample_reporter (Some status_running) None)
            DeadlineSignal empty_world) \<noteq> None"
proof -
  let ?a = "\<lparr>AdapterResult.Status = ''failure'', Reason = ''ValidationFailed'',
             Message = ''Validation checks failed'', Details = []\<rparr>"
  let ?b = "\<lparr>AdapterResult.Status = ''success'', Reason = ''AllChecksPassed'',
             Message = ''All validations passed'', Details = []\<rparr>"
  note t1 = resolve_completion_status[of "ResultSignal ?a" env_without_file
              "sample_reporter None None" empty_world, THEN conjunct1, rule_format, of ?a]
  note t2 = resolve_completion_status[of "ResultSignal ?a" env_without_file
              "sample_reporter None (Some (External Conflict ''conflict''))" empty_world,
              THEN conjunct1, rule_format, of ?a]
  note t3 = resolve_completion_status[of "TerminatedSignal (terminated_with ''Error'' 1)"
              "env_with_file sample_json" "sample_reporter None None" empty_world,
              THEN conjunct1, rule_format, of ?b]
  note t4 = resolve_completion_status[of DeadlineSignal env_without_file
              "sample_reporter (Some (status_terminated ''Error'' 1)) None" empty_world,
              THEN conjunct2]
  note t5 = resolve_completion_status[of DeadlineSignal "env_with_file sample_json"
              "sample_reporter (Some status_running) None" empty_world, THEN conjunct2]
  from t1 have 1: "fst (resolve env_without_file (sample_reporter None None) (ResultSignal ?a) empty_world) = None"
    and 2: "events (snd (resolve env_without_file (sample_reporter None None) (ResultSignal ?a) empty_world)) =
       [UpdateJobStatusCall
          \<lparr>JobCondition.Type = ''Available'', Status = ''False'', Reason = ''ValidationFailed'',
           Message = ''Validation checks failed'', LastTransitionTime = 0\<rparr>]"
    by (simp_all add: mock_publish)
  from t2 have 3: "fst (resolve env_without_file (sample_reporter None (Some (External Conflict ''conflict'')))
          (ResultSignal ?a) empty_world)
        = Some (WrapError ''failed to update job status: pod=test-pod condition=Available: ''
                  (External Conflict ''conflict''))"
    by (simp add: mock_publish)
  from t3 have 4: "fst (resolve (env_with_file sample_json) (sample_reporter None None)
            (TerminatedSignal (terminated_with ''Error'' 1)) empty_world) = None"
    by (simp add: mock_publish tryParseResultFile_with_file)
  from t4 have 5: "fst (resolve env_without_file (sample_reporter (Some (status_terminated ''Error'' 1)) None)
            DeadlineSignal empty_world) \<noteq> None"
    by (simp add: tryParseResultFile_without_file)
  have "Terminated (State status_running) = None"
    by (simp add: status_running_def)
  with t5 have 6: "fst (resolve (env_with_file sample_json) (sample_reporter (Some status_running) None)
            DeadlineSignal empty_world) \<noteq> None"
    by (simp add: sample_reporter_def mock_client_def)
  from 1 2 3 4 5 6 show ?thesis by blast
qed

text \<open>
  The claim as it was stated lets a run fail only when publishing fails, on every path.
  On the error path the client accepts the condition and the run still returns the parse
  error it was given.
\<close>

theorem resolve_error_path_counterexample:
  "fst (UpdateJobStatus (k8sClient (sample_reporter None None))
          \<lparr>JobCondition.Type = ''Available'', Status = ''False'', Reason = ''InvalidResultFormat'',
           Message = ''Failed to parse adapter result: JSON parsing failed'',
           LastTransitionTime = 0\<rparr> ()) = None
   \<and> events (snd (resolve env_without_file (sample_reporter None None)
                    (ErrorSignal (ErrorString ''JSON parsing failed'')) empty_world)) =
       [UpdateJobStatusCall
          \<lparr>JobCondition.Type = ''Available'', Status = ''False'', Reason = ''InvalidResultFormat'',
           Message = ''Failed to parse adapter result: JSON parsing failed'',
           LastTransitionTime = 0\<rparr>]
   \<and> fst (resolve env_without_file (sample_reporter None None)
            (ErrorSignal (ErrorString ''JSON parsing failed'')) empty_world) =
       Some (ErrorString ''JSON parsing failed'')"
  by (simp add: resolve_def UpdateFromError_events UpdateFromError_result mock_publish fmt_v_def)

text \<open>
  Claim C5. \<open>UpdateFromTerminatedContainer\<close> never returns \<open>nil\<close>: when the condition was
  published it returns an error that says the adapter container terminated, with the
  message of the condition, and otherwise the error of the call, wrapped. So
  \<open>HandleTermination\<close> returns an error whenever the result file gives no valid record.
  When the file gives a valid record, \<open>HandleTermination\<close> publishes the condition of the
  record and returns \<open>nil\<close> exactly when that call returns \<open>nil\<close>, and the error of the
  call, wrapped, when it fails: it returns \<open>nil\<close> only for a valid record whose condition
  was published.
\<close>

theorem HandleTermination_returns_error:
  "fst (UpdateFromTerminatedContainer r t w) \<noteq> None
   \<and> (\<exists>condition.
         events (snd (UpdateFromTerminatedContainer r t w)) = events w @ [UpdateJobStatusCall condition]
       \<and> (fst (UpdateJobStatus (k8sClient r) condition (state w)) = None \<longrightarrow>
            fst (UpdateFromTerminatedContainer r t w) =
              Some (ErrorString (''adapter container terminated: '' @ JobCondition.Message condition)))
       \<and> (\<forall>e. fst (UpdateJobStatus (k8sClient r) condition (state w)) = Some e \<longrightarrow>
            fst (UpdateFromTerminatedContainer r t w) =
              Some (WrapError ''failed to update job status: '' e)))
   \<and> (\<forall>e. tryParseResultFile env r = Inl e \<longrightarrow>
         HandleTermination env r t w = UpdateFromTerminatedContainer r t w
         \<and> fst (HandleTermination env r t w) \<noteq> None)
   \<and> (\<forall>a. tryParseResultFile env r = Inr a \<longrightarrow>
         events (snd (HandleTermination env r t w)) = events w @ [UpdateJobStatusCall
              \<lparr>JobCondition.Type = conditionType r,
               Status = (if AdapterResult.Status a = ''success'' then ''True'' else ''False''),
               Reason = AdapterResult.Reason a,
               Message = AdapterResult.Message a,
               LastTransitionTime = 0\<rparr>]
       \<and> (fst (HandleTermination env r t w) = None
            \<longleftrightarrow> fst (UpdateJobStatus (k8sClient r)
              \<lparr>JobCondition.Type = conditionType r,
               Status = (if AdapterResult.Status a = ''success'' then ''True'' else ''False''),
               Reason = AdapterResult.Reason a,
               Message = AdapterResult.Message a,
               LastTransitionTime = 0\<rparr> (state w)) = None)
       \<and> (\<forall>e. fst (UpdateJobStatus (k8sClient r)
              \<lparr>JobCondition.Type = conditionType r,
               Status = (if AdapterResult.Status a = ''success'' then ''True'' else ''False''),
               Reason = AdapterResult.Reason a,
               Message = AdapterResult.Message a,
               LastTransitionTime = 0\<rparr> (state w)) = Some e \<longrightarrow>
              fst (HandleTermination env r t w) = Some (WrapError (''failed to update job status: pod='' @ podName r @ '' condition=''
                          @ conditionType r @ '': '') e)))
   \<and> (fst (HandleTermination env r t w) = None \<longrightarrow>
        (\<exists>a. tryParseResultFile env r = Inr a
            \<and> fst (UpdateJobStatus (k8sClient r)
              \<lparr>JobCondition.Type = conditionType r,
               Status = (if AdapterResult.Status a = ''success'' then ''True'' else ''False''),
               Reason = AdapterResult.Reason a,
               Message = AdapterResult.Message a,
               LastTransitionTime = 0\<rparr> (state w)) = None))"
proof -
  from UpdateFromTerminatedContainer_published[of r t w]
  have 1: "\<exists>condition.
         events (snd (UpdateFromTerminatedContainer r t w)) = events w @ [UpdateJobStatusCall condition]
       \<and> (fst (UpdateJobStatus (k8sClient r) condition (state w)) = None \<longrightarrow>
            fst (UpdateFromTerminatedContainer r t w) =
              Some (ErrorString (''adapter container terminated: '' @ JobCondition.Message condition)))
       \<and> (\<forall>e. fst (UpdateJobStatus (k8sClient r) condition (state w)) = Some e \<longrightarrow>
            fst (UpdateFromTerminatedContainer r t w) =
              Some (WrapError ''failed to update job status: '' e))"
    by auto
  have 2: "HandleTermination env r t w = UpdateFromTerminatedContainer r t w
         \<and> fst (HandleTermination env r t w) \<noteq> None" if "tryParseResultFile env r = Inl e" for e
    using that by (simp add: HandleTermination_def UpdateFromTerminatedContainer_error)
  have 3: "events (snd (HandleTermination env r t w)) = events w @ [UpdateJobStatusCall
              \<lparr>JobCondition.Type = conditionType r,
               Status = (if AdapterResult.Status a = ''success'' then ''True'' else ''False''),
               Reason = AdapterResult.Reason a,
               Message = AdapterResult.Message a,
               LastTransitionTime = 0\<rparr>]
       \<and> (fst (HandleTermination env r t w) = None
            \<longleftrightarrow> fst (UpdateJobStatus (k8sClient r)
              \<lparr>JobCondition.Type = conditionType r,
               Status = (if AdapterResult.Status a = ''success'' then ''True'' else ''False''),
               Reason = AdapterResult.Reason a,
               Message = AdapterResult.Message a,
               LastTransitionTime = 0\<rparr> (state w)) = None)
       \<and> (\<forall>e. fst (UpdateJobStatus (k8sClient r)
              \<lparr>JobCondition.Type = conditionType r,
               Status = (if AdapterResult.Status a = ''success'' then ''True'' else ''False''),
               Reason = AdapterResult.Reason a,
               Message = AdapterResult.Message a,
               LastTransitionTime = 0\<rparr> (state w)) = Some e \<longrightarrow>
              fst (HandleTermination env r t w) = Some (WrapError (''failed to update job status: pod='' @ podName r @ '' condition=''
                          @ conditionType r @ '': '') e))"
    if "tryParseResultFile env r = Inr a" for a
  proof -
    from that have "HandleTermination env r t w = UpdateFromResult r a w"
      by (simp add: HandleTermination_def)
    then show ?thesis
      by (simp add: UpdateFromResult_events UpdateFromResult_result split: option.splits)
  qed
  have 4: "\<exists>a. tryParseResultFile env r = Inr a
            \<and> fst (UpdateJobStatus (k8sClient r)
              \<lparr>JobCondition.Type = conditionType r,
               Status = (if AdapterResult.Status a = ''success'' then ''True'' else ''False''),
               Reason = AdapterResult.Reason a,
               Message = AdapterResult.Message a,
               LastTransitionTime = 0\<rparr> (state w)) = None"
    if n: "fst (HandleTermination env r t w) = None"
  proof (cases "tryParseResultFile env r")
    case (Inl e)
    from 2[OF Inl] n show ?thesis by simp
  next
    case (Inr a)
    from 3[OF Inr] n Inr show ?thesis by blast
  qed
  from 1 2 3 4 UpdateFromTerminatedContainer_error[of r t w] show ?thesis by blast
qed

theorem HandleTermination_returns_error_witness:
  "tryParseResultFile env_without_file (sample_reporter None None) =
     Inl (External NotExist ''stat /results/adapter-result.json: no such file or directory'')
   \<and> fst (HandleTermination env_without_file (sample_reporter None None)
            (terminated_with ''Completed'' 0) empty_world) \<noteq> None
   \<and> fst (UpdateFromTerminatedContainer (sample_reporter None None)
            (terminated_with ''Completed'' 0) empty_world) =
       Some (ErrorString ''adapter container terminated: Adapter container exited successfully (code 0) but did not produce a valid result file: Completed'')
   \<and> tryParseResultFile (env_with_file sample_json) (sample_reporter None None) =
       Inr \<lparr>AdapterResult.Status = ''success'', Reason = ''AllChecksPassed'',
            Message = ''All validations passed'', Details = []\<rparr>
   \<and> fst (HandleTermination (env_with_file sample_json) (sample_reporter None None)
            (terminated_with ''Completed'' 0) empty_world) = None
   \<and> fst (HandleTermination (env_with_file sample_json)
            (sample_reporter None (Some (External Conflict ''conflict'')))
            (terminated_with ''Completed'' 0) empty_world) =
       Some (WrapError ''failed to update job status: pod=test-pod condition=Available: ''
               (External Conflict ''conflict''))"
proof -
  let ?r = "sample_reporter None None"
  let ?r' = "sample_reporter None (Some (External Conflict ''conflict''))"
  let ?t = "terminated_with ''Completed'' 0"
  note n = tryParseResultFile_without_file[of None None]
  note y = tryParseResultFile_with_file[of None None]
  note y' = tryParseResultFile_with_file[of None "Some (External Conflict ''conflict'')"]
  note t1 = HandleTermination_returns_error[of ?r ?t empty_world env_without_file]
  note t2 = HandleTermination_returns_error[of ?r ?t empty_world "env_with_file sample_json"]
  note t3 = HandleTermination_returns_error[of ?r' ?t empty_world "env_with_file sample_json"]
  from t1[THEN conjunct2, THEN conjunct2, THEN conjunct1, rule_format, OF n, THEN conjunct2]
  have 1: "fst (HandleTermination env_without_file ?r ?t empty_world) \<noteq> None" .
  from t1[THEN conjunct2, THEN conjunct1]
  obtain condition where c:
      "events (snd (UpdateFromTerminatedContainer ?r ?t empty_world)) = events empty_world @ [UpdateJobStatusCall condition]"
      "fst (UpdateFromTerminatedContainer ?r ?t empty_world) =
         Some (ErrorString (''adapter container terminated: '' @ JobCondition.Message condition))"
    by (auto simp: mock_publish)
  from c(1) have "JobCondition.Message condition =
      ''Adapter container exited successfully (code 0) but did not produce a valid result file: Completed''"
    by (auto simp: UpdateFromTerminatedContainer_events terminated_with_def)
  with c(2) have 2: "fst (UpdateFromTerminatedContainer ?r ?t empty_world) =
       Some (ErrorString ''adapter container terminated: Adapter container exited successfully (code 0) but did not produce a valid result file: Completed'')"
    by simp
  from t2[THEN conjunct2, THEN conjunct2, THEN conjunct2, THEN conjunct1, rule_format, OF y]
  have 3: "fst (HandleTermination (env_with_file sample_json) ?r ?t empty_world) = None"
    by (simp add: mock_publish)
  from t3[THEN conjunct2, THEN conjunct2, THEN conjunct2, THEN conjunct1, rule_format, OF y']
  have 4: "fst (HandleTermination (env_with_file sample_json) ?r' ?t empty_world) =
       Some (WrapError ''failed to update job status: pod=test-pod condition=Available: ''
               (External Conflict ''conflict''))"
    by (simp add: mock_publish)
  from n y 1 2 3 4 show ?thesis by blast
qed

end
